theory Spec2Isabelle
  imports Main "HOL-Library.AList"
begin

section \<open>Python values\<close>

text \<open>
  The automation engine of \<^verbatim>\<open>backend/app/services/automation_executor.py\<close> works on
  the JSON payloads the hosted database returns: dictionaries with string keys whose
  values are \<^verbatim>\<open>None\<close>, booleans, integers, strings, lists and dictionaries again.
  A dictionary is an association list in insertion order; its keys are meant to be
  distinct, and a lookup reads the first binding. Floating-point numbers are left out of
  the value type, and a string is read as ASCII text, one \<^typ>\<open>char\<close> per character.
\<close>

datatype json =
    JNull
  | JBool bool
  | JInt int
  | JStr string
  | JArr "json list"
  | JObj "(string \<times> json) list"

type_synonym dict = "(string \<times> json) list"

text \<open>The exceptions the engine raises or meets; each carries what its message needs.\<close>

datatype error =
    ValueError string
  | KeyError string
  | AttributeError string string
  | TypeError string
  | ExternalError string

text \<open>Python's truth value of an object, as \<^verbatim>\<open>if x\<close>, \<^verbatim>\<open>not x\<close> and \<^verbatim>\<open>x or y\<close> read it.\<close>

fun truthy :: "json \<Rightarrow> bool" where
  "truthy JNull = False"
| "truthy (JBool b) = b"
| "truthy (JInt i) = (i \<noteq> 0)"
| "truthy (JStr s) = (s \<noteq> [])"
| "truthy (JArr xs) = (xs \<noteq> [])"
| "truthy (JObj kvs) = (kvs \<noteq> [])"

text \<open>
  Python's \<^verbatim>\<open>==\<close> on these values: a boolean equals the integer 0 or 1 it stands for,
  lists are compared element by element, dictionaries key by key whatever the order of
  insertion, and values of different kinds are otherwise unequal.
\<close>

fun py_eq :: "json \<Rightarrow> json \<Rightarrow> bool" where
  "py_eq JNull JNull = True"
| "py_eq (JBool a) (JBool b) = (a = b)"
| "py_eq (JBool a) (JInt j) = ((if a then 1 else 0) = j)"
| "py_eq (JInt i) (JBool b) = (i = (if b then 1 else 0))"
| "py_eq (JInt i) (JInt j) = (i = j)"
| "py_eq (JStr s) (JStr t) = (s = t)"
| "py_eq (JArr xs) (JArr ys) = list_all2 py_eq xs ys"
| "py_eq (JObj kvs) (JObj kws) =
     (length kvs = length kws \<and>
      list_all (\<lambda>(k, v). case map_of kws k of None \<Rightarrow> False | Some w \<Rightarrow> py_eq v w) kvs)"
| "py_eq _ _ = False"

text \<open>The name Python prints for the type of a value.\<close>

fun type_name :: "json \<Rightarrow> string" where
  "type_name JNull = ''NoneType''"
| "type_name (JBool b) = ''bool''"
| "type_name (JInt i) = ''int''"
| "type_name (JStr s) = ''str''"
| "type_name (JArr xs) = ''list''"
| "type_name (JObj kvs) = ''dict''"

text \<open>
  A raise is the left summand of the result. \<open>bind_r\<close> runs the next statement on the
  value of a call that returned and passes a raise on.
\<close>

definition bind_r :: "error + 'a \<Rightarrow> ('a \<Rightarrow> error + 'b) \<Rightarrow> error + 'b" where
  "bind_r m f = (case m of Inl e \<Rightarrow> Inl e | Inr x \<Rightarrow> f x)"

text \<open>
  \<^verbatim>\<open>d.get(k)\<close> and \<^verbatim>\<open>d.get(k, default)\<close> on a dictionary, and the same calls on a
  value that only may be a dictionary: anything else has no attribute \<^verbatim>\<open>get\<close>.
\<close>

definition dict_get :: "dict \<Rightarrow> string \<Rightarrow> json" where
  "dict_get d k = (case map_of d k of None \<Rightarrow> JNull | Some v \<Rightarrow> v)"

definition dict_get_default :: "dict \<Rightarrow> string \<Rightarrow> json \<Rightarrow> json" where
  "dict_get_default d k dflt = (case map_of d k of None \<Rightarrow> dflt | Some v \<Rightarrow> v)"

fun py_get :: "json \<Rightarrow> string \<Rightarrow> error + json" where
  "py_get (JObj d) k = Inr (dict_get d k)"
| "py_get v k = Inl (AttributeError (type_name v) ''get'')"

fun py_get_default :: "json \<Rightarrow> string \<Rightarrow> json \<Rightarrow> error + json" where
  "py_get_default (JObj d) k dflt = Inr (dict_get_default d k dflt)"
| "py_get_default v k dflt = Inl (AttributeError (type_name v) ''get'')"

text \<open>
  \<^verbatim>\<open>d.get(key)\<close> where the key is itself a value read from a configuration: a string is
  looked up, a list or a dictionary is unhashable, and no other value is a key of a
  JSON dictionary.
\<close>

fun dict_get_key :: "dict \<Rightarrow> json \<Rightarrow> error + json" where
  "dict_get_key d (JStr k) = Inr (dict_get d k)"
| "dict_get_key d (JArr xs) = Inl (TypeError (''unhashable type: '' @ CHR 0x27 # ''list'' @ [CHR 0x27]))"
| "dict_get_key d (JObj kvs) = Inl (TypeError (''unhashable type: '' @ CHR 0x27 # ''dict'' @ [CHR 0x27]))"
| "dict_get_key d v = Inr JNull"

fun py_get_key :: "json \<Rightarrow> json \<Rightarrow> error + json" where
  "py_get_key (JObj d) key = dict_get_key d key"
| "py_get_key v key = Inl (AttributeError (type_name v) ''get'')"

section \<open>The condition evaluator\<close>

text \<open>
  \<^verbatim>\<open>check_trigger_conditions(trigger_config, record, old_data, trigger_type)\<close>. The
  trigger configuration is what \<^verbatim>\<open>automation.get("trigger_config", {})\<close> gave and the
  payload is what \<^verbatim>\<open>record.get("data", {})\<close> gave, so both are values that only may be
  dictionaries; \<^verbatim>\<open>old_data\<close> is an optional dictionary, and \<^verbatim>\<open>if old_data\<close> is false
  for \<^verbatim>\<open>None\<close> and for the empty dictionary alike.
\<close>

definition old_status_of :: "dict option \<Rightarrow> json" where
  "old_status_of old_data =
     (case old_data of
        None \<Rightarrow> JNull
      | Some od \<Rightarrow> if od \<noteq> [] then dict_get od ''status'' else JNull)"

definition check_trigger_conditions ::
  "json \<Rightarrow> dict \<Rightarrow> dict option \<Rightarrow> string \<Rightarrow> error + bool" where
  "check_trigger_conditions trigger_config record old_data trigger_type =
     (let record_data = dict_get_default record ''data'' (JObj []) in
      if trigger_type = ''status_changed'' then
        bind_r (py_get trigger_config ''to_status'') (\<lambda>to_status.
        bind_r (py_get trigger_config ''from_status'') (\<lambda>from_status.
        bind_r (py_get record_data ''status'') (\<lambda>current_status.
          let old_status = old_status_of old_data in
          if truthy to_status \<and> \<not> py_eq current_status to_status then Inr False
          else if truthy from_status \<and> \<not> py_eq old_status from_status then Inr False
          else if py_eq old_status current_status then Inr False
          else Inr True)))
      else if trigger_type = ''field_updated'' then
        bind_r (py_get trigger_config ''field_name'') (\<lambda>field_name.
          if \<not> truthy field_name then Inr True
          else
            (case old_data of
               None \<Rightarrow> Inr False
             | Some od \<Rightarrow>
                 if od = [] then Inr False
                 else
                   bind_r (dict_get_key od field_name) (\<lambda>old_value.
                   bind_r (py_get_key record_data field_name) (\<lambda>new_value.
                     Inr (\<not> py_eq old_value new_value)))))
      else if trigger_type = ''record_created'' then Inr True
      else if trigger_type = ''record_deleted'' then Inr True
      else Inr True)"

section \<open>Template substitution\<close>

text \<open>
  \<^verbatim>\<open>str(value)\<close>: a string is itself, an integer its decimal digits, a boolean and
  \<^verbatim>\<open>None\<close> their names. What Python prints for a list or a dictionary is its
  \<^verbatim>\<open>repr\<close>, which belongs to the language runtime; it is the parameter \<open>rp\<close>.
\<close>

fun show_nat :: "nat \<Rightarrow> string" where
  "show_nat n =
     (if n < 10 then [char_of (48 + n)]
      else show_nat (n div 10) @ [char_of (48 + n mod 10)])"

definition show_int :: "int \<Rightarrow> string" where
  "show_int i = (if i < 0 then CHR ''-'' # show_nat (nat (- i)) else show_nat (nat i))"

fun py_str :: "(json \<Rightarrow> string) \<Rightarrow> json \<Rightarrow> string" where
  "py_str rp JNull = ''None''"
| "py_str rp (JBool b) = (if b then ''True'' else ''False'')"
| "py_str rp (JInt i) = show_int i"
| "py_str rp (JStr s) = s"
| "py_str rp (JArr xs) = rp (JArr xs)"
| "py_str rp (JObj kvs) = rp (JObj kvs)"

text \<open>\<^verbatim>\<open>s.strip()\<close> removes the white space at both ends.\<close>

definition is_space :: "char \<Rightarrow> bool" where
  "is_space c =
     (c \<in> set [CHR 0x09, CHR 0x0A, CHR 0x0B, CHR 0x0C, CHR 0x0D,
               CHR 0x1C, CHR 0x1D, CHR 0x1E, CHR 0x1F, CHR 0x20])"

definition strip :: "string \<Rightarrow> string" where
  "strip s = rev (dropWhile is_space (rev (dropWhile is_space s)))"

text \<open>
  The pattern \<^verbatim>\<open>\{\{([^}]+)\}\}\<close> tried at the head of a string: two opening braces,
  the longest run of characters other than a closing brace, which must not be empty, and
  two closing braces. A shorter run cannot match, because the character after it would
  be one of the run. The result is the captured group and the text after the match.
\<close>

fun match_var :: "string \<Rightarrow> (string \<times> string) option" where
  "match_var (c1 # c2 # s) =
     (if c1 = CHR ''{'' \<and> c2 = CHR ''{'' then
        (let name = takeWhile (\<lambda>c. c \<noteq> CHR ''}'') s;
             rest = dropWhile (\<lambda>c. c \<noteq> CHR ''}'') s
         in case rest of
              d1 # d2 # rest' \<Rightarrow>
                if name \<noteq> [] \<and> d1 = CHR ''}'' \<and> d2 = CHR ''}'' then Some (name, rest')
                else None
            | _ \<Rightarrow> None)
      else None)"
| "match_var _ = None"

lemma match_var_shorter: "match_var s = Some (name, rest) \<Longrightarrow> length rest < length s"
proof (cases s rule: match_var.cases)
  case (1 c1 c2 t)
  assume m: "match_var s = Some (name, rest)"
  have "length (dropWhile (\<lambda>c. c \<noteq> CHR ''}'') t) \<le> length t"
    by (rule length_dropWhile_le)
  with m 1 show ?thesis
    by (auto simp: Let_def split: if_splits list.splits)
qed simp_all

text \<open>
  \<^verbatim>\<open>re.sub(pattern, repl, template)\<close> with a function for \<open>repl\<close>: the leftmost match
  is replaced by what the function returns for its group and the scan goes on after the
  match; a character where no match starts is copied.
\<close>

function re_sub :: "(string \<Rightarrow> string) \<Rightarrow> string \<Rightarrow> string" where
  "re_sub repl [] = []"
| "re_sub repl (c # cs) =
     (case match_var (c # cs) of
        Some (name, rest) \<Rightarrow> repl name @ re_sub repl rest
      | None \<Rightarrow> c # re_sub repl cs)"
  by pat_completeness auto
termination
  by (relation "measure (\<lambda>(repl, s). length s)") (auto dest: match_var_shorter)

text \<open>
  \<^verbatim>\<open>{**record_data, "id": record.get("id"), "created_at": record.get("created_at")}\<close>:
  the payload is unpacked first, which fails on anything that is not a dictionary, and
  the two keys of the record itself are written over it.
\<close>

fun py_mapping :: "json \<Rightarrow> error + dict" where
  "py_mapping (JObj d) = Inr d"
| "py_mapping v =
     Inl (TypeError (CHR 0x27 # type_name v @ CHR 0x27 # '' object is not a mapping''))"

definition all_data_of :: "dict \<Rightarrow> error + dict" where
  "all_data_of record =
     bind_r (py_mapping (dict_get_default record ''data'' (JObj []))) (\<lambda>record_data.
       Inr (AList.update ''created_at'' (dict_get record ''created_at'')
             (AList.update ''id'' (dict_get record ''id'') record_data)))"

definition replace_var :: "(json \<Rightarrow> string) \<Rightarrow> dict \<Rightarrow> string \<Rightarrow> string" where
  "replace_var rp all_data grp =
     (let var_name = strip grp;
          val = dict_get_default all_data var_name (JStr [])
      in if val \<noteq> JNull then py_str rp val else [])"

text \<open>
  \<^verbatim>\<open>AutomationExecutor._replace_template_variables(template, record)\<close>. The template is
  what a \<^verbatim>\<open>config.get\<close> gave: a falsy one renders as the empty string before the record
  is looked at, and \<^verbatim>\<open>re.sub\<close> refuses a truthy one that is not a string.
\<close>

definition replace_template_variables ::
  "(json \<Rightarrow> string) \<Rightarrow> json \<Rightarrow> dict \<Rightarrow> error + string" where
  "replace_template_variables rp template record =
     (if \<not> truthy template then Inr []
      else
        bind_r (all_data_of record) (\<lambda>all_data.
          case template of
            JStr t \<Rightarrow> Inr (re_sub (replace_var rp all_data) t)
          | _ \<Rightarrow> Inl (TypeError ''expected string or bytes-like object'')))"

section \<open>The world outside the engine\<close>

text \<open>
  The engine reaches a hosted database, an HTTP client and the clock. The state they
  share is a record: the tables the engine reads and writes, the HTTP requests it has
  sent, and a count of the interactions so far. What the outside answers is not the
  engine's to decide, so three oracles indexed by that count stand for it: whether the
  database call made at a given moment raises (and with which message), what the HTTP
  client does with a request, and what the clock reads.
\<close>

record http_response =
  status_code :: int
  body_text :: string
  status_error :: string

record world =
  records_table :: "dict list"
  automation_rules_table :: "dict list"
  automation_logs_table :: "dict list"
  entities_table :: "dict list"
  http_requests :: "(string \<times> json \<times> dict \<times> dict) list"
  ticks :: nat
  db_fault :: "nat \<Rightarrow> string option"
  http_reply :: "nat \<Rightarrow> error + http_response"
  utcnow :: "nat \<Rightarrow> string"
  new_id :: "nat \<Rightarrow> string"

definition tick :: "world \<Rightarrow> world" where
  "tick w = w\<lparr>ticks := Suc (ticks w)\<rparr>"

text \<open>
  A step that cannot touch the world, inside a function that can: a raise leaves the
  function with the world as it stands.
\<close>

definition bind_w ::
  "error + 'a \<Rightarrow> world \<Rightarrow> ('a \<Rightarrow> (error + 'b) \<times> world) \<Rightarrow> (error + 'b) \<times> world" where
  "bind_w m w f = (case m of Inl e \<Rightarrow> (Inl e, w) | Inr x \<Rightarrow> f x)"

text \<open>\<^verbatim>\<open>str(e)\<close> of a caught exception.\<close>

fun str_error :: "error \<Rightarrow> string" where
  "str_error (ValueError m) = m"
| "str_error (KeyError k) = CHR 0x27 # k @ [CHR 0x27]"
| "str_error (AttributeError ty attr) =
     CHR 0x27 # ty @ CHR 0x27 # '' object has no attribute '' @ CHR 0x27 # attr @ [CHR 0x27]"
| "str_error (TypeError m) = m"
| "str_error (ExternalError m) = m"

section \<open>The action dispatchers\<close>

text \<open>
  \<^verbatim>\<open>AutomationExecutor._send_email(config, record, automation_name)\<close>. The recipient is
  \<^verbatim>\<open>record_data.get("email") or config.get("to_email")\<close>: the configuration is read
  only when the record gives no truthy address. The message itself goes to the log.
\<close>

definition send_email :: "(json \<Rightarrow> string) \<Rightarrow> json \<Rightarrow> dict \<Rightarrow> json \<Rightarrow> error + dict" where
  "send_email rp config record automation_name =
     (let record_data = dict_get_default record ''data'' (JObj []) in
      bind_r (py_get record_data ''email'') (\<lambda>from_record.
      bind_r (if truthy from_record then Inr from_record else py_get config ''to_email'')
        (\<lambda>recipient.
      if \<not> truthy recipient then Inl (ValueError ''No recipient email found'')
      else
        bind_r (py_get_default config ''subject'' (JStr [])) (\<lambda>subject_template.
        bind_r (replace_template_variables rp subject_template record) (\<lambda>subject.
        bind_r (py_get_default config ''body'' (JStr [])) (\<lambda>body_template.
        bind_r (replace_template_variables rp body_template record) (\<lambda>body.
          Inr [(''email_sent'', JBool True),
               (''recipient'', recipient),
               (''subject'', JStr subject),
               (''body_length'', JInt (int (length body)))])))))))"

text \<open>
  \<^verbatim>\<open>AutomationExecutor._call_webhook(config, record, workspace_id, entity_id)\<close>.
  \<^verbatim>\<open>.upper()\<close> exists on strings only, \<^verbatim>\<open>.setdefault\<close> on dictionaries only. The
  request is recorded when it is handed to the client; the client may raise, and
  \<^verbatim>\<open>raise_for_status\<close> raises for every status outside 200..299. \<^verbatim>\<open>setdefault\<close>
  writes into the dictionary of the rule in memory; the engine does not read the rule
  again, so the model keeps the completed headers for the request only.
\<close>

definition upper_char :: "char \<Rightarrow> char" where
  "upper_char c =
     (if 97 \<le> (of_char c :: nat) \<and> (of_char c :: nat) \<le> 122
      then char_of ((of_char c :: nat) - 32) else c)"

fun py_upper :: "json \<Rightarrow> error + string" where
  "py_upper (JStr s) = Inr (map upper_char s)"
| "py_upper v = Inl (AttributeError (type_name v) ''upper'')"

fun py_setdefault :: "json \<Rightarrow> string \<Rightarrow> json \<Rightarrow> error + dict" where
  "py_setdefault (JObj d) k v = Inr (if map_of d k = None then d @ [(k, v)] else d)"
| "py_setdefault x k v = Inl (AttributeError (type_name x) ''setdefault'')"

definition call_webhook ::
  "json \<Rightarrow> dict \<Rightarrow> string \<Rightarrow> string \<Rightarrow> world \<Rightarrow> (error + dict) \<times> world" where
  "call_webhook config record workspace_id entity_id w =
     bind_w (py_get config ''url'') w (\<lambda>url.
     bind_w (bind_r (py_get_default config ''method'' (JStr ''POST'')) py_upper) w (\<lambda>method.
     if \<not> truthy url then (Inl (ValueError ''Webhook URL is required''), w)
     else
       let payload = [(''workspace_id'', JStr workspace_id),
                      (''entity_id'', JStr entity_id),
                      (''record'', JObj record),
                      (''timestamp'', JStr (utcnow w (ticks w))),
                      (''event'', JStr ''automation_triggered'')];
           w1 = tick w
       in
       bind_w (bind_r (py_get_default config ''headers'' (JObj []))
                 (\<lambda>h. py_setdefault h ''Content-Type'' (JStr ''application/json''))) w1
         (\<lambda>headers.
       if method = ''POST'' \<or> method = ''PUT'' \<or> method = ''PATCH'' then
         let w2 = tick (w1\<lparr>http_requests :=
                              http_requests w1 @ [(method, url, headers, payload)]\<rparr>)
         in
         (case http_reply w1 (ticks w1) of
            Inl e \<Rightarrow> (Inl e, w2)
          | Inr response \<Rightarrow>
              if 200 \<le> status_code response \<and> status_code response < 300 then
                (Inr [(''webhook_called'', JBool True),
                      (''url'', url),
                      (''method'', JStr method),
                      (''status_code'', JInt (status_code response)),
                      (''response'', JStr (take 500 (body_text response)))], w2)
              else (Inl (ExternalError (status_error response)), w2))
       else (Inl (ValueError (''Unsupported HTTP method: '' @ method)), w1))))"

text \<open>
  \<^verbatim>\<open>AutomationExecutor._update_field(config, record, workspace_id, entity_id)\<close>.
  \<^verbatim>\<open>{**current_data, field_name: new_value}\<close> needs a dictionary to unpack and a
  hashable key; the payload travels as JSON text, where every key is a string, so a key
  that is a number or a boolean is stored under its JSON spelling. \<^verbatim>\<open>record["id"]\<close>
  raises when the record has no such key, before the database is called. The update
  rewrites the \<^verbatim>\<open>data\<close> column of the rows of \<^verbatim>\<open>records\<close> with that id.
\<close>

fun json_key :: "json \<Rightarrow> error + string" where
  "json_key (JStr k) = Inr k"
| "json_key (JInt i) = Inr (show_int i)"
| "json_key (JBool b) = Inr (if b then ''true'' else ''false'')"
| "json_key JNull = Inr ''null''"
| "json_key (JArr xs) = Inl (TypeError (''unhashable type: '' @ CHR 0x27 # ''list'' @ [CHR 0x27]))"
| "json_key (JObj kvs) = Inl (TypeError (''unhashable type: '' @ CHR 0x27 # ''dict'' @ [CHR 0x27]))"

definition py_index :: "dict \<Rightarrow> string \<Rightarrow> error + json" where
  "py_index d k = (case map_of d k of None \<Rightarrow> Inl (KeyError k) | Some v \<Rightarrow> Inr v)"

definition db_update_record_data :: "json \<Rightarrow> dict \<Rightarrow> world \<Rightarrow> (error + unit) \<times> world" where
  "db_update_record_data rid updated_data w =
     (case db_fault w (ticks w) of
        Some m \<Rightarrow> (Inl (ExternalError m), tick w)
      | None \<Rightarrow>
          (Inr (),
           tick (w\<lparr>records_table :=
                     map (\<lambda>row. if map_of row ''id'' = Some rid
                                 then AList.update ''data'' (JObj updated_data) row
                                 else row)
                       (records_table w)\<rparr>)))"

definition update_field ::
  "(json \<Rightarrow> string) \<Rightarrow> json \<Rightarrow> dict \<Rightarrow> string \<Rightarrow> string \<Rightarrow> world \<Rightarrow> (error + dict) \<times> world" where
  "update_field rp config record workspace_id entity_id w =
     bind_w (py_get config ''field_name'') w (\<lambda>field_name.
     bind_w (py_get config ''new_value'') w (\<lambda>new_value0.
     if \<not> truthy field_name then (Inl (ValueError ''Field name is required''), w)
     else
       bind_w (case new_value0 of
                 JStr t \<Rightarrow> map_sum id JStr (replace_template_variables rp new_value0 record)
               | _ \<Rightarrow> Inr new_value0) w (\<lambda>new_value.
       let current_data = dict_get_default record ''data'' (JObj []) in
       bind_w (py_mapping current_data) w (\<lambda>current.
       bind_w (json_key field_name) w (\<lambda>key.
       let updated_data = AList.update key new_value current in
       bind_w (py_index record ''id'') w (\<lambda>rid.
       (case db_update_record_data rid updated_data w of
          (Inl e, w1) \<Rightarrow> (Inl e, w1)
        | (Inr u, w1) \<Rightarrow>
            bind_w (dict_get_key current field_name) w1 (\<lambda>old_value.
              (Inr [(''field_updated'', JBool True),
                    (''field_name'', field_name),
                    (''old_value'', old_value),
                    (''new_value'', new_value)], w1)))))))))"

text \<open>
  \<^verbatim>\<open>AutomationExecutor._create_task(config, record, workspace_id)\<close>: the task is only
  logged.
\<close>

definition create_task :: "(json \<Rightarrow> string) \<Rightarrow> json \<Rightarrow> dict \<Rightarrow> string \<Rightarrow> error + dict" where
  "create_task rp config record workspace_id =
     bind_r (py_get_default config ''title'' (JStr [])) (\<lambda>title_template.
     bind_r (replace_template_variables rp title_template record) (\<lambda>title.
     bind_r (py_get_default config ''description'' (JStr [])) (\<lambda>description_template.
     bind_r (replace_template_variables rp description_template record) (\<lambda>description.
       Inr [(''task_created'', JBool True),
            (''title'', JStr title),
            (''description'', JStr description)]))))"

section \<open>The rule executor\<close>

text \<open>
  \<^verbatim>\<open>AutomationExecutor._log_execution(automation_id, record_id, status, result)\<close>: the
  whole insert stands in a \<^verbatim>\<open>try\<close> whose handler only logs, so a database failure
  leaves the log table as it was and nothing is raised.
\<close>

definition log_execution :: "json \<Rightarrow> json \<Rightarrow> string \<Rightarrow> dict \<Rightarrow> world \<Rightarrow> world" where
  "log_execution automation_id record_id status result w =
     (let row = [(''automation_id'', automation_id),
                 (''record_id'', record_id),
                 (''status'', JStr status),
                 (''result'', JObj result),
                 (''executed_at'', JStr (utcnow w (ticks w)))];
          w1 = tick w
      in case db_fault w1 (ticks w1) of
           Some m \<Rightarrow> tick w1
         | None \<Rightarrow> tick (w1\<lparr>automation_logs_table := automation_logs_table w1 @ [row]\<rparr>))"

text \<open>
  The chain of comparisons on \<^verbatim>\<open>action_type\<close> inside the \<^verbatim>\<open>try\<close> of
  \<^verbatim>\<open>AutomationExecutor.execute\<close>, up to the binding of \<^verbatim>\<open>result\<close>.
\<close>

definition dispatch_action ::
  "(json \<Rightarrow> string) \<Rightarrow> dict \<Rightarrow> dict \<Rightarrow> string \<Rightarrow> string \<Rightarrow> world \<Rightarrow> (error + dict) \<times> world" where
  "dispatch_action rp automation_rule record workspace_id entity_id w =
     (let action_type = dict_get automation_rule ''action_type'';
          action_config = dict_get_default automation_rule ''action_config'' (JObj [])
      in
      if py_eq action_type (JStr ''send_email'') then
        (send_email rp action_config record (dict_get automation_rule ''name''), w)
      else if py_eq action_type (JStr ''webhook'') then
        call_webhook action_config record workspace_id entity_id w
      else if py_eq action_type (JStr ''update_field'') then
        update_field rp action_config record workspace_id entity_id w
      else if py_eq action_type (JStr ''create_task'') then
        (create_task rp action_config record workspace_id, w)
      else (Inl (ValueError (''Unknown action type: '' @ py_str rp action_type)), w))"

text \<open>
  \<^verbatim>\<open>AutomationExecutor.execute(automation_rule, record, workspace_id, entity_id)\<close>
  returns its envelope and the world it leaves. Every exception of the dispatch is
  caught; the handler logs it and returns the failure envelope.
\<close>

definition execute ::
  "(json \<Rightarrow> string) \<Rightarrow> dict \<Rightarrow> dict \<Rightarrow> string \<Rightarrow> string \<Rightarrow> world \<Rightarrow> dict \<times> world" where
  "execute rp automation_rule record workspace_id entity_id w =
     (let action_type = dict_get automation_rule ''action_type'' in
      case dispatch_action rp automation_rule record workspace_id entity_id w of
        (Inr result, w1) \<Rightarrow>
          ([(''success'', JBool True),
            (''action_type'', action_type),
            (''result'', JObj result)],
           log_execution (dict_get automation_rule ''id'') (dict_get record ''id'')
             ''success'' result w1)
      | (Inl e, w1) \<Rightarrow>
          ([(''success'', JBool False),
            (''error'', JStr (str_error e))],
           log_execution (dict_get automation_rule ''id'') (dict_get record ''id'')
             ''error'' [(''error'', JStr (str_error e))] w1))"

section \<open>The trigger dispatcher\<close>

text \<open>
  The query of \<^verbatim>\<open>trigger_automations\<close>: the rows of \<^verbatim>\<open>automation_rules\<close> whose
  workspace, entity and trigger type are the given ones and whose \<^verbatim>\<open>is_active\<close> is
  true, in the order of the table.
\<close>

definition rule_selected :: "string \<Rightarrow> string \<Rightarrow> string \<Rightarrow> dict \<Rightarrow> bool" where
  "rule_selected workspace_id entity_id trigger_type row =
     (map_of row ''workspace_id'' = Some (JStr workspace_id) \<and>
      map_of row ''entity_id'' = Some (JStr entity_id) \<and>
      map_of row ''trigger_type'' = Some (JStr trigger_type) \<and>
      map_of row ''is_active'' = Some (JBool True))"

text \<open>
  The loop over the loaded rules. The condition check is outside every \<^verbatim>\<open>try\<close>: an
  exception it raises leaves the loop, with the world as the rules before it left it.
\<close>

fun run_automations ::
  "(json \<Rightarrow> string) \<Rightarrow> dict list \<Rightarrow> string \<Rightarrow> string \<Rightarrow> string \<Rightarrow> dict \<Rightarrow> dict option \<Rightarrow>
   dict list \<Rightarrow> world \<Rightarrow> (error + dict list) \<times> world" where
  "run_automations rp [] workspace_id entity_id trigger_type record old_data results w =
     (Inr results, w)"
| "run_automations rp (automation # rest) workspace_id entity_id trigger_type record old_data
     results w =
     (case check_trigger_conditions (dict_get_default automation ''trigger_config'' (JObj []))
             record old_data trigger_type of
        Inl e \<Rightarrow> (Inl e, w)
      | Inr fires \<Rightarrow>
          if fires then
            (case execute rp automation record workspace_id entity_id w of
               (result, w1) \<Rightarrow>
                 run_automations rp rest workspace_id entity_id trigger_type record old_data
                   (results @ [result]) w1)
          else
            run_automations rp rest workspace_id entity_id trigger_type record old_data
              results w)"

text \<open>
  \<^verbatim>\<open>trigger_automations(workspace_id, entity_id, trigger_type, record, old_data)\<close>.
  The query is the first call to the database and stands in no \<^verbatim>\<open>try\<close>.
\<close>

definition trigger_automations ::
  "(json \<Rightarrow> string) \<Rightarrow> string \<Rightarrow> string \<Rightarrow> string \<Rightarrow> dict \<Rightarrow> dict option \<Rightarrow> world \<Rightarrow>
   (error + dict list) \<times> world" where
  "trigger_automations rp workspace_id entity_id trigger_type record old_data w =
     (case db_fault w (ticks w) of
        Some m \<Rightarrow> (Inl (ExternalError m), tick w)
      | None \<Rightarrow>
          let automations =
                filter (rule_selected workspace_id entity_id trigger_type)
                  (automation_rules_table w);
              w1 = tick w
          in
          if automations = [] then (Inr [], w1)
          else run_automations rp automations workspace_id entity_id trigger_type record
                 old_data [] w1)"

section \<open>The automation rules API\<close>

text \<open>
  The request models of \<^verbatim>\<open>backend/app/api/automations.py\<close>. Every field of
  \<^verbatim>\<open>TriggerConfig\<close> and \<^verbatim>\<open>ActionConfig\<close> is optional; \<^verbatim>\<open>method\<close> defaults to
  \<^verbatim>\<open>"POST"\<close>, the others to \<^verbatim>\<open>None\<close>.
\<close>

record TriggerConfig =
  tc_from_status :: "string option"
  tc_to_status :: "string option"
  tc_field_name :: "string option"

record ActionConfig =
  ac_subject :: "string option"
  ac_body :: "string option"
  ac_to_email :: "string option"
  ac_url :: "string option"
  ac_method :: "string option"
  ac_headers :: "dict option"
  ac_field_name :: "string option"
  ac_new_value :: "string option"
  ac_title :: "string option"
  ac_description :: "string option"

record CreateAutomationRequest =
  car_name :: string
  car_entity_id :: string
  car_trigger_type :: string
  car_trigger_config :: TriggerConfig
  car_action_type :: string
  car_action_config :: ActionConfig
  car_is_active :: bool

record UpdateAutomationRequest =
  uar_name :: "string option"
  uar_is_active :: "bool option"
  uar_trigger_config :: "TriggerConfig option"
  uar_action_config :: "ActionConfig option"

datatype http_error = HTTPException nat string

text \<open>\<^verbatim>\<open>.dict(exclude_none=True)\<close>: the fields that are set, in the order of the model.\<close>

definition opt_item :: "string \<Rightarrow> json option \<Rightarrow> dict" where
  "opt_item k v = (case v of None \<Rightarrow> [] | Some x \<Rightarrow> [(k, x)])"

definition trigger_config_dict :: "TriggerConfig \<Rightarrow> dict" where
  "trigger_config_dict c =
     opt_item ''from_status'' (map_option JStr (tc_from_status c)) @
     opt_item ''to_status'' (map_option JStr (tc_to_status c)) @
     opt_item ''field_name'' (map_option JStr (tc_field_name c))"

definition action_config_dict :: "ActionConfig \<Rightarrow> dict" where
  "action_config_dict c =
     opt_item ''subject'' (map_option JStr (ac_subject c)) @
     opt_item ''body'' (map_option JStr (ac_body c)) @
     opt_item ''to_email'' (map_option JStr (ac_to_email c)) @
     opt_item ''url'' (map_option JStr (ac_url c)) @
     opt_item ''method'' (map_option JStr (ac_method c)) @
     opt_item ''headers'' (map_option JObj (ac_headers c)) @
     opt_item ''field_name'' (map_option JStr (ac_field_name c)) @
     opt_item ''new_value'' (map_option JStr (ac_new_value c)) @
     opt_item ''title'' (map_option JStr (ac_title c)) @
     opt_item ''description'' (map_option JStr (ac_description c))"

text \<open>\<^verbatim>\<open>not x\<close> for an optional string: \<^verbatim>\<open>None\<close> and the empty string are falsy.\<close>

definition opt_falsy :: "string option \<Rightarrow> bool" where
  "opt_falsy x = (case x of None \<Rightarrow> True | Some s \<Rightarrow> s = [])"

text \<open>\<^verbatim>\<open>_validate_action_config(action_type, config)\<close>: the raise, if any.\<close>

definition validate_action_config :: "string \<Rightarrow> ActionConfig \<Rightarrow> http_error option" where
  "validate_action_config action_type config =
     (if action_type = ''send_email'' then
        (if opt_falsy (ac_subject config) \<or> opt_falsy (ac_body config)
         then Some (HTTPException 400 ''Email action requires subject and body'')
         else None)
      else if action_type = ''webhook'' then
        (if opt_falsy (ac_url config)
         then Some (HTTPException 400 ''Webhook action requires URL'')
         else if ac_method config \<notin> set [Some ''POST'', Some ''PUT'', Some ''PATCH'']
         then Some (HTTPException 400 ''Invalid HTTP method'')
         else None)
      else if action_type = ''update_field'' then
        (if opt_falsy (ac_field_name config)
         then Some (HTTPException 400 ''Update field action requires field_name'')
         else None)
      else if action_type = ''create_task'' then
        (if opt_falsy (ac_title config)
         then Some (HTTPException 400 ''Create task action requires title'')
         else None)
      else None)"

text \<open>
  \<^verbatim>\<open>create_automation(workspace_id, request)\<close>, after the framework has validated the
  request and the caller's role. The entity is looked up, the action configuration is
  validated, and the rule is inserted; the database gives the new row its id. An
  exception of the database client becomes a 500 response. The insert of the model
  always returns the inserted row, so the branch for an empty \<^verbatim>\<open>response.data\<close> after
  the insert has no counterpart here.
\<close>

definition entity_in_workspace :: "string \<Rightarrow> string \<Rightarrow> dict \<Rightarrow> bool" where
  "entity_in_workspace entity_id workspace_id row =
     (map_of row ''id'' = Some (JStr entity_id) \<and>
      map_of row ''workspace_id'' = Some (JStr workspace_id))"

definition create_automation ::
  "string \<Rightarrow> CreateAutomationRequest \<Rightarrow> world \<Rightarrow> (http_error + dict) \<times> world" where
  "create_automation workspace_id request w =
     (case db_fault w (ticks w) of
        Some m \<Rightarrow> (Inl (HTTPException 500 m), tick w)
      | None \<Rightarrow>
          let w1 = tick w in
          if filter (entity_in_workspace (car_entity_id request) workspace_id)
               (entities_table w) = []
          then (Inl (HTTPException 404 ''Entity not found in workspace''), w1)
          else
            (case validate_action_config (car_action_type request)
                    (car_action_config request) of
               Some err \<Rightarrow> (Inl err, w1)
             | None \<Rightarrow>
                 let automation_data =
                       [(''workspace_id'', JStr workspace_id),
                        (''entity_id'', JStr (car_entity_id request)),
                        (''name'', JStr (car_name request)),
                        (''trigger_type'', JStr (car_trigger_type request)),
                        (''trigger_config'',
                           JObj (trigger_config_dict (car_trigger_config request))),
                        (''action_type'', JStr (car_action_type request)),
                        (''action_config'',
                           JObj (action_config_dict (car_action_config request))),
                        (''is_active'', JBool (car_is_active request))]
                 in
                 (case db_fault w1 (ticks w1) of
                    Some m \<Rightarrow> (Inl (HTTPException 500 m), tick w1)
                  | None \<Rightarrow>
                      let automation = (''id'', JStr (new_id w1 (ticks w1))) # automation_data
                      in (Inr automation,
                          tick (w1\<lparr>automation_rules_table :=
                                     automation_rules_table w1 @ [automation]\<rparr>)))))"

text \<open>
  \<^verbatim>\<open>update_automation(workspace_id, automation_id, request)\<close>: the fields that are set
  are written over the rows with that id in that workspace. Nothing here calls
  \<^verbatim>\<open>_validate_action_config\<close>.
\<close>

definition update_data_of :: "UpdateAutomationRequest \<Rightarrow> dict" where
  "update_data_of request =
     opt_item ''name'' (map_option JStr (uar_name request)) @
     opt_item ''is_active'' (map_option JBool (uar_is_active request)) @
     opt_item ''trigger_config''
       (map_option (\<lambda>c. JObj (trigger_config_dict c)) (uar_trigger_config request)) @
     opt_item ''action_config''
       (map_option (\<lambda>c. JObj (action_config_dict c)) (uar_action_config request))"

definition apply_update :: "dict \<Rightarrow> dict \<Rightarrow> dict" where
  "apply_update update_data row = fold (\<lambda>(k, v). AList.update k v) update_data row"

definition automation_selected :: "string \<Rightarrow> string \<Rightarrow> dict \<Rightarrow> bool" where
  "automation_selected automation_id workspace_id row =
     (map_of row ''id'' = Some (JStr automation_id) \<and>
      map_of row ''workspace_id'' = Some (JStr workspace_id))"

definition update_automation ::
  "string \<Rightarrow> string \<Rightarrow> UpdateAutomationRequest \<Rightarrow> world \<Rightarrow> (http_error + dict) \<times> world" where
  "update_automation workspace_id automation_id request w =
     (let update_data = update_data_of request in
      if update_data = [] then (Inl (HTTPException 400 ''No fields to update''), w)
      else
        (case db_fault w (ticks w) of
           Some m \<Rightarrow> (Inl (HTTPException 500 m), tick w)
         | None \<Rightarrow>
             let table' =
                   map (\<lambda>row. if automation_selected automation_id workspace_id row
                               then apply_update update_data row else row)
                     (automation_rules_table w);
                 w1 = tick (w\<lparr>automation_rules_table := table'\<rparr>)
             in
             (case filter (automation_selected automation_id workspace_id)
                     (automation_rules_table w) of
                [] \<Rightarrow> (Inl (HTTPException 404 ''Automation not found''), w1)
              | row # rows \<Rightarrow> (Inr (apply_update update_data row), w1))))"

text \<open>
  The required-field contract of an action kind, read on a stored rule: what section 7
  of the specification asks of \<^verbatim>\<open>action_config\<close> before the rule is persisted.
\<close>

definition config_get :: "json \<Rightarrow> string \<Rightarrow> json" where
  "config_get config k = (case config of JObj d \<Rightarrow> dict_get d k | _ \<Rightarrow> JNull)"

definition required_fields_ok :: "json \<Rightarrow> json \<Rightarrow> bool" where
  "required_fields_ok action_type config =
     (if action_type = JStr ''send_email'' then
        truthy (config_get config ''subject'') \<and> truthy (config_get config ''body'')
      else if action_type = JStr ''webhook'' then
        truthy (config_get config ''url'') \<and>
        config_get config ''method'' \<in> set [JStr ''POST'', JStr ''PUT'', JStr ''PATCH'']
      else if action_type = JStr ''update_field'' then
        truthy (config_get config ''field_name'')
      else if action_type = JStr ''create_task'' then
        truthy (config_get config ''title'')
      else True)"

definition rule_contract_ok :: "dict \<Rightarrow> bool" where
  "rule_contract_ok row =
     required_fields_ok (dict_get row ''action_type'')
       (dict_get_default row ''action_config'' (JObj []))"

section \<open>Notions the properties are stated with\<close>


text \<open>
  What an identifier stands for in a record with the payload \<open>data\<close>: the record's own
  \<^verbatim>\<open>id\<close> and \<^verbatim>\<open>created_at\<close> come before the payload's keys of the same names, and an
  identifier found nowhere stands for the empty string. The text put in its place is
  empty for \<^verbatim>\<open>None\<close>.
\<close>

definition token_value :: "dict \<Rightarrow> dict \<Rightarrow> string \<Rightarrow> json" where
  "token_value record data k =
     (if k = ''id'' then dict_get record ''id''
      else if k = ''created_at'' then dict_get record ''created_at''
      else dict_get_default data k (JStr []))"

definition token_text :: "(json \<Rightarrow> string) \<Rightarrow> dict \<Rightarrow> dict \<Rightarrow> string \<Rightarrow> string" where
  "token_text rp record data k =
     (if token_value record data k = JNull then [] else py_str rp (token_value record data k))"

text \<open>
  The recipient of a notification: the \<^verbatim>\<open>email\<close> of the payload when it is truthy, the
  \<^verbatim>\<open>to_email\<close> of the configuration otherwise.
\<close>

definition resolved_recipient :: "dict \<Rightarrow> dict \<Rightarrow> json" where
  "resolved_recipient data cfg =
     (if truthy (dict_get data ''email'') then dict_get data ''email''
      else dict_get cfg ''to_email'')"

text \<open>
  The value an update-field action writes: a string is rendered through template
  substitution, any other value is written as it is.
\<close>

definition rendered_value :: "(json \<Rightarrow> string) \<Rightarrow> dict \<Rightarrow> json \<Rightarrow> json" where
  "rendered_value rp record v =
     (case v of
        JStr t \<Rightarrow>
          (case replace_template_variables rp (JStr t) record of
             Inr s \<Rightarrow> JStr s
           | Inl e \<Rightarrow> v)
      | _ \<Rightarrow> v)"

text \<open>
  A world for examples: the given rows of \<^verbatim>\<open>records\<close> and of \<^verbatim>\<open>automation_rules\<close>,
  no log yet, a database that never fails, an HTTP server that answers 200, a clock that
  stands still.
\<close>

definition sample_world :: "dict list \<Rightarrow> dict list \<Rightarrow> world" where
  "sample_world recs rules =
     \<lparr>records_table = recs,
      automation_rules_table = rules,
      automation_logs_table = [],
      entities_table = [],
      http_requests = [],
      ticks = 0,
      db_fault = (\<lambda>n. None),
      http_reply = (\<lambda>n. Inr \<lparr>status_code = 200, body_text = ''ok'', status_error = []\<rparr>),
      utcnow = (\<lambda>n. ''2024-01-01T00:00:00''),
      new_id = (\<lambda>n. ''rule-'' @ show_nat n)\<rparr>"

text \<open>The row one execution adds to \<^verbatim>\<open>automation_logs\<close>.\<close>

definition log_row :: "json \<Rightarrow> json \<Rightarrow> string \<Rightarrow> dict \<Rightarrow> string \<Rightarrow> dict" where
  "log_row automation_id record_id status result executed_at =
     [(''automation_id'', automation_id),
      (''record_id'', record_id),
      (''status'', JStr status),
      (''result'', JObj result),
      (''executed_at'', JStr executed_at)]"

text \<open>
  The log table after an attempt to log from the world \<open>w\<close>: the clock is read first, the
  insert is the interaction after it, and a failed insert leaves the table alone.
\<close>

definition logs_after :: "world \<Rightarrow> dict \<Rightarrow> dict list" where
  "logs_after w row =
     (case db_fault w (Suc (ticks w)) of
        None \<Rightarrow> automation_logs_table w @ [row]
      | Some m \<Rightarrow> automation_logs_table w)"

definition known_action_types :: "string list" where
  "known_action_types = [''send_email'', ''webhook'', ''update_field'', ''create_task'']"

text \<open>
  Running the executor on a list of rules, one after the other, each from the world the
  one before left: the results in the order of the list, and the last world.
\<close>

fun execute_all ::
  "(json \<Rightarrow> string) \<Rightarrow> dict list \<Rightarrow> dict \<Rightarrow> string \<Rightarrow> string \<Rightarrow> world \<Rightarrow> dict list \<times> world" where
  "execute_all rp [] record workspace_id entity_id w = ([], w)"
| "execute_all rp (automation # rest) record workspace_id entity_id w =
     (case execute rp automation record workspace_id entity_id w of
        (result, w1) \<Rightarrow>
          (case execute_all rp rest record workspace_id entity_id w1 of
             (results, w2) \<Rightarrow> (result # results, w2)))"

text \<open>A rule's condition holds for a record transition.\<close>

definition fires :: "dict \<Rightarrow> dict option \<Rightarrow> string \<Rightarrow> dict \<Rightarrow> bool" where
  "fires record old_data trigger_type automation =
     (check_trigger_conditions (dict_get_default automation ''trigger_config'' (JObj []))
        record old_data trigger_type = Inr True)"

text \<open>
  A rule is well formed for the condition evaluator when its trigger configuration is a
  dictionary (a missing one counts as empty) whose \<^verbatim>\<open>field_name\<close>, if any, is not a list
  or a dictionary, as the \<^verbatim>\<open>TriggerConfig\<close> model of the API guarantees.
\<close>

definition trigger_config_ok :: "dict \<Rightarrow> bool" where
  "trigger_config_ok automation =
     (case dict_get_default automation ''trigger_config'' (JObj []) of
        JObj tc \<Rightarrow>
          (case dict_get tc ''field_name'' of
             JArr xs \<Rightarrow> False
           | JObj kvs \<Rightarrow> False
           | _ \<Rightarrow> True)
      | _ \<Rightarrow> False)"

text \<open>The rules the query of the trigger dispatcher loads from a world.\<close>

definition loaded_rules :: "string \<Rightarrow> string \<Rightarrow> string \<Rightarrow> world \<Rightarrow> dict list" where
  "loaded_rules workspace_id entity_id trigger_type w =
     filter (rule_selected workspace_id entity_id trigger_type) (automation_rules_table w)"

text \<open>Three rules for examples: a webhook without URL, an inactive rule, a task rule.\<close>

definition sample_rules :: "dict list" where
  "sample_rules =
     [[(''id'', JStr ''a1''), (''workspace_id'', JStr ''ws''), (''entity_id'', JStr ''en''),
       (''name'', JStr ''notify''), (''trigger_type'', JStr ''record_created''),
       (''trigger_config'', JObj []), (''action_type'', JStr ''webhook''),
       (''action_config'', JObj [(''method'', JStr ''POST'')]), (''is_active'', JBool True)],
      [(''id'', JStr ''a2''), (''workspace_id'', JStr ''ws''), (''entity_id'', JStr ''en''),
       (''name'', JStr ''paused''), (''trigger_type'', JStr ''record_created''),
       (''trigger_config'', JObj []), (''action_type'', JStr ''create_task''),
       (''action_config'', JObj [(''title'', JStr ''never'')]), (''is_active'', JBool False)],
      [(''id'', JStr ''a3''), (''workspace_id'', JStr ''ws''), (''entity_id'', JStr ''en''),
       (''name'', JStr ''follow up''), (''trigger_type'', JStr ''record_created''),
       (''trigger_config'', JObj []), (''action_type'', JStr ''create_task''),
       (''action_config'', JObj [(''title'', JStr ''Call {{full_name}}'')]),
       (''is_active'', JBool True)]]"

definition sample_record :: dict where
  "sample_record = [(''id'', JStr ''r1''), (''data'', JObj [(''full_name'', JStr ''Ann'')])]"

text \<open>
  A stored notification rule that meets its contract, and an update request that sets
  nothing but an action configuration with every field left at its default.
\<close>

definition sample_email_rule :: dict where
  "sample_email_rule =
     [(''id'', JStr ''a1''), (''workspace_id'', JStr ''ws''), (''entity_id'', JStr ''en''),
      (''name'', JStr ''welcome''), (''trigger_type'', JStr ''record_created''),
      (''trigger_config'', JObj []), (''action_type'', JStr ''send_email''),
      (''action_config'',
         JObj [(''subject'', JStr ''Hi''), (''body'', JStr ''Welcome''),
               (''method'', JStr ''POST'')]),
      (''is_active'', JBool True)]"

definition default_action_config :: ActionConfig where
  "default_action_config =
     \<lparr>ac_subject = None, ac_body = None, ac_to_email = None, ac_url = None,
      ac_method = Some ''POST'', ac_headers = None, ac_field_name = None,
      ac_new_value = None, ac_title = None, ac_description = None\<rparr>"

definition sample_update_request :: UpdateAutomationRequest where
  "sample_update_request =
     \<lparr>uar_name = None, uar_is_active = None, uar_trigger_config = None,
      uar_action_config = Some default_action_config\<rparr>"

text \<open>
  Rules for a field-updated trigger as the workspace generator may store them, where the
  trigger configuration is any dictionary: a task rule, a rule whose \<^verbatim>\<open>field_name\<close> is
  a list, and a task rule again. And the old payload of the sample record.
\<close>

definition sample_field_rules :: "dict list" where
  "sample_field_rules =
     [[(''id'', JStr ''b1''), (''workspace_id'', JStr ''ws''), (''entity_id'', JStr ''en''),
       (''name'', JStr ''first''), (''trigger_type'', JStr ''field_updated''),
       (''trigger_config'', JObj []), (''action_type'', JStr ''create_task''),
       (''action_config'', JObj [(''title'', JStr ''Call {{full_name}}'')]),
       (''is_active'', JBool True)],
      [(''id'', JStr ''b2''), (''workspace_id'', JStr ''ws''), (''entity_id'', JStr ''en''),
       (''name'', JStr ''odd''), (''trigger_type'', JStr ''field_updated''),
       (''trigger_config'', JObj [(''field_name'', JArr [JStr ''full_name''])]),
       (''action_type'', JStr ''create_task''),
       (''action_config'', JObj [(''title'', JStr ''second'')]),
       (''is_active'', JBool True)],
      [(''id'', JStr ''b3''), (''workspace_id'', JStr ''ws''), (''entity_id'', JStr ''en''),
       (''name'', JStr ''last''), (''trigger_type'', JStr ''field_updated''),
       (''trigger_config'', JObj []), (''action_type'', JStr ''create_task''),
       (''action_config'', JObj [(''title'', JStr ''third'')]),
       (''is_active'', JBool True)]]"

definition sample_old_data :: dict where
  "sample_old_data = [(''full_name'', JStr ''Anna'')]"

section \<open>Facts about the value operations\<close>

lemma py_eq_JNull_left: "py_eq JNull x = (x = JNull)"
  by (cases x) simp_all

lemma py_eq_JStr_right: "py_eq x (JStr s) = (x = JStr s)"
  by (cases x) auto

lemma dict_get_update:
  "dict_get (AList.update k v d) k' = (if k' = k then v else dict_get d k')"
  by (simp add: dict_get_def update_conv')

lemma dict_get_delete:
  "dict_get (AList.delete k d) k' = (if k' = k then JNull else dict_get d k')"
  by (simp add: dict_get_def delete_conv')

section \<open>The condition evaluator: theorems\<close>

text \<open>
  Claim C8. Whatever the trigger configuration, the record and the old data are, the
  condition evaluator answers true for the trigger kinds \<^verbatim>\<open>record_created\<close> and
  \<^verbatim>\<open>record_deleted\<close>, and for every trigger kind it does not know, that is every kind
  other than \<^verbatim>\<open>status_changed\<close> and \<^verbatim>\<open>field_updated\<close>. No value of the arguments
  makes it raise there: the configuration is never read.
\<close>

theorem check_trigger_unconditional:
  "check_trigger_conditions trigger_config record old_data ''record_created'' = Inr True \<and>
   check_trigger_conditions trigger_config record old_data ''record_deleted'' = Inr True \<and>
   (trigger_type \<noteq> ''status_changed'' \<and> trigger_type \<noteq> ''field_updated'' \<longrightarrow>
      check_trigger_conditions trigger_config record old_data trigger_type = Inr True)"
  by (simp add: check_trigger_conditions_def)

theorem check_trigger_unconditional_witness:
  "''record_archived'' \<noteq> ''status_changed'' \<and> ''record_archived'' \<noteq> ''field_updated'' \<and>
   check_trigger_conditions (JInt 7) [(''data'', JNull)] None ''record_archived'' = Inr True \<and>
   check_trigger_conditions (JInt 7) [(''data'', JNull)] None ''record_created'' = Inr True \<and>
   check_trigger_conditions (JInt 7) [(''data'', JNull)] None ''record_deleted'' = Inr True"
  using check_trigger_unconditional [of "JInt 7" "[(''data'', JNull)]" None "''record_archived''"]
  by simp

text \<open>
  Claim C1, as stated, fails: a status trigger with \<^verbatim>\<open>to_status = "won"\<close> fires on a
  record whose status is \<^verbatim>\<open>"won"\<close> when no old data is given. The old status is then
  taken to be \<^verbatim>\<open>None\<close>, which differs from \<^verbatim>\<open>"won"\<close>.
\<close>

theorem status_changed_fires_without_old_data:
  "check_trigger_conditions (JObj [(''to_status'', JStr ''won'')])
     [(''data'', JObj [(''status'', JStr ''won'')])] None ''status_changed'' = Inr True"
  by (simp add: check_trigger_conditions_def dict_get_default_def dict_get_def bind_r_def
      old_status_of_def)

text \<open>
  Claim C1, amended. For a status-change trigger whose configuration is a dictionary, on
  a record whose payload is a dictionary, the evaluator fires iff the status changed
  (the old status differs from the new one, the old status being \<^verbatim>\<open>None\<close> when the old
  data is absent or empty) and \<^verbatim>\<open>to_status\<close> is absent or falsy or equals the new
  status, and \<^verbatim>\<open>from_status\<close> is absent or falsy or equals the old status. In
  particular, when the old data is absent the trigger fires iff the new status is not
  \<^verbatim>\<open>None\<close>, \<^verbatim>\<open>to_status\<close> is absent, falsy or equal to the new status, and
  \<^verbatim>\<open>from_status\<close> is absent or falsy.
\<close>

theorem status_changed_fires_iff:
  assumes "dict_get_default record ''data'' (JObj []) = JObj new_data"
  shows "check_trigger_conditions (JObj tc) record old_data ''status_changed'' =
           Inr (\<not> py_eq (old_status_of old_data) (dict_get new_data ''status'') \<and>
                (\<not> truthy (dict_get tc ''to_status'') \<or>
                   py_eq (dict_get new_data ''status'') (dict_get tc ''to_status'')) \<and>
                (\<not> truthy (dict_get tc ''from_status'') \<or>
                   py_eq (old_status_of old_data) (dict_get tc ''from_status''))) \<and>
         check_trigger_conditions (JObj tc) record None ''status_changed'' =
           Inr (dict_get new_data ''status'' \<noteq> JNull \<and>
                (\<not> truthy (dict_get tc ''to_status'') \<or>
                   py_eq (dict_get new_data ''status'') (dict_get tc ''to_status'')) \<and>
                \<not> truthy (dict_get tc ''from_status''))"
proof -
  have gen: "\<And>od. check_trigger_conditions (JObj tc) record od ''status_changed'' =
           Inr (\<not> py_eq (old_status_of od) (dict_get new_data ''status'') \<and>
                (\<not> truthy (dict_get tc ''to_status'') \<or>
                   py_eq (dict_get new_data ''status'') (dict_get tc ''to_status'')) \<and>
                (\<not> truthy (dict_get tc ''from_status'') \<or>
                   py_eq (old_status_of od) (dict_get tc ''from_status'')))"
    using assms by (auto simp add: check_trigger_conditions_def bind_r_def Let_def)
  have none: "old_status_of None = JNull"
    by (simp add: old_status_of_def)
  have "truthy (dict_get tc ''from_status'') \<Longrightarrow> dict_get tc ''from_status'' \<noteq> JNull"
    by auto
  then show ?thesis
    unfolding gen none py_eq_JNull_left by auto
qed

theorem status_changed_fires_iff_witness:
  "dict_get_default [(''data'', JObj [(''status'', JStr ''qualified'')])] ''data'' (JObj []) =
     JObj [(''status'', JStr ''qualified'')] \<and>
   check_trigger_conditions
     (JObj [(''from_status'', JStr ''new''), (''to_status'', JStr ''qualified'')])
     [(''data'', JObj [(''status'', JStr ''qualified'')])]
     (Some [(''status'', JStr ''new'')]) ''status_changed'' = Inr True \<and>
   check_trigger_conditions
     (JObj [(''from_status'', JStr ''new''), (''to_status'', JStr ''qualified'')])
     [(''data'', JObj [(''status'', JStr ''qualified'')])]
     None ''status_changed'' = Inr False"
  using status_changed_fires_iff
    [of "[(''data'', JObj [(''status'', JStr ''qualified'')])]"
        "[(''status'', JStr ''qualified'')]"
        "[(''from_status'', JStr ''new''), (''to_status'', JStr ''qualified'')]"
        "Some [(''status'', JStr ''new'')]"]
  by (simp add: dict_get_default_def dict_get_def old_status_of_def)




text \<open>
  Claim C10. In the condition evaluator a falsy configuration value behaves as an absent
  one. For every falsy value, the empty string among them: a status-change trigger
  whose \<^verbatim>\<open>to_status\<close> (or \<^verbatim>\<open>from_status\<close>) is that value answers as the same
  configuration without the key does, so the check is skipped entirely; and a
  field-updated trigger whose \<^verbatim>\<open>field_name\<close> is that value fires on every update,
  also when the old data is absent.
\<close>

theorem falsy_config_is_absent:
  assumes "\<not> truthy v"
  shows "check_trigger_conditions (JObj (AList.update ''to_status'' v tc)) record old_data
           ''status_changed'' =
         check_trigger_conditions (JObj (AList.delete ''to_status'' tc)) record old_data
           ''status_changed'' \<and>
         check_trigger_conditions (JObj (AList.update ''from_status'' v tc)) record old_data
           ''status_changed'' =
         check_trigger_conditions (JObj (AList.delete ''from_status'' tc)) record old_data
           ''status_changed'' \<and>
         check_trigger_conditions (JObj (AList.update ''field_name'' v tc)) record old_data
           ''field_updated'' = Inr True \<and>
         check_trigger_conditions (JObj (AList.update ''field_name'' v tc)) record None
           ''field_updated'' = Inr True"
  using assms
  by (simp add: check_trigger_conditions_def bind_r_def Let_def dict_get_update dict_get_delete
      split: sum.splits)

theorem falsy_config_is_absent_witness:
  "\<not> truthy (JStr []) \<and>
   check_trigger_conditions (JObj [(''to_status'', JStr [])])
     [(''data'', JObj [(''status'', JStr ''won'')])] (Some [(''status'', JStr ''new'')])
     ''status_changed'' = Inr True \<and>
   check_trigger_conditions (JObj [(''from_status'', JStr [])])
     [(''data'', JObj [(''status'', JStr ''won'')])] (Some [(''status'', JStr ''new'')])
     ''status_changed'' = Inr True \<and>
   check_trigger_conditions (JObj [(''field_name'', JStr [])])
     [(''data'', JObj [(''status'', JStr ''won'')])] None ''field_updated'' = Inr True"
  using falsy_config_is_absent
    [of "JStr []" "[]" "[(''data'', JObj [(''status'', JStr ''won'')])]"
        "Some [(''status'', JStr ''new'')]"]
  by (simp add: check_trigger_conditions_def dict_get_default_def dict_get_def bind_r_def
      old_status_of_def)

section \<open>Template substitution: theorems\<close>







lemma all_data_of_dict:
  "dict_get_default record ''data'' (JObj []) = JObj data \<Longrightarrow>
   all_data_of record =
     Inr (AList.update ''created_at'' (dict_get record ''created_at'')
           (AList.update ''id'' (dict_get record ''id'') data))"
  by (simp add: all_data_of_def bind_r_def)

lemma replace_var_token_text:
  "replace_var rp
     (AList.update ''created_at'' (dict_get record ''created_at'')
        (AList.update ''id'' (dict_get record ''id'') data)) =
   (\<lambda>g. token_text rp record data (strip g))"
  by (rule ext) (simp add: replace_var_def token_text_def token_value_def dict_get_default_def
      update_conv' Let_def)

lemma replace_template_variables_str:
  assumes "dict_get_default record ''data'' (JObj []) = JObj data"
  shows "replace_template_variables rp (JStr t) record =
           Inr (re_sub (\<lambda>g. token_text rp record data (strip g)) t)"
  by (cases "t = []")
     (simp_all add: replace_template_variables_def all_data_of_dict [OF assms] bind_r_def
        replace_var_token_text)



section \<open>The action dispatchers: theorems\<close>

text \<open>
  Claim C9. For every record whose payload is a dictionary and every send-notification
  configuration, the recipient is the \<^verbatim>\<open>email\<close> of the payload or, failing that, the
  \<^verbatim>\<open>to_email\<close> of the configuration. If neither gives a truthy recipient the action
  fails with the error \<^verbatim>\<open>No recipient email found\<close>. Otherwise, the subject and the
  body being strings or absent, both are rendered through template substitution and the
  action succeeds with a result that names the resolved recipient, the rendered subject
  and the length of the rendered body.
\<close>

theorem send_email_recipient:
  assumes "dict_get_default record ''data'' (JObj []) = JObj data"
  shows "(\<not> truthy (resolved_recipient data cfg) \<longrightarrow>
            send_email rp (JObj cfg) record automation_name =
              Inl (ValueError ''No recipient email found'')) \<and>
         (truthy (resolved_recipient data cfg) \<and>
          dict_get_default cfg ''subject'' (JStr []) = JStr subject_template \<and>
          dict_get_default cfg ''body'' (JStr []) = JStr body_template \<longrightarrow>
            (\<exists>subject body.
               replace_template_variables rp (JStr subject_template) record = Inr subject \<and>
               replace_template_variables rp (JStr body_template) record = Inr body \<and>
               send_email rp (JObj cfg) record automation_name =
                 Inr [(''email_sent'', JBool True),
                      (''recipient'', resolved_recipient data cfg),
                      (''subject'', JStr subject),
                      (''body_length'', JInt (int (length body)))]))"
proof -
  obtain subject where s: "replace_template_variables rp (JStr subject_template) record = Inr subject"
    by (simp add: replace_template_variables_str [OF assms])
  obtain body where b: "replace_template_variables rp (JStr body_template) record = Inr body"
    by (simp add: replace_template_variables_str [OF assms])
  show ?thesis
    using assms s b
    by (auto simp add: send_email_def resolved_recipient_def bind_r_def Let_def)
qed

theorem send_email_recipient_witness:
  "dict_get_default [(''id'', JStr ''r1''), (''data'', JObj [(''full_name'', JStr ''Ann'')])]
     ''data'' (JObj []) = JObj [(''full_name'', JStr ''Ann'')] \<and>
   truthy (resolved_recipient [(''full_name'', JStr ''Ann'')]
             [(''subject'', JStr ''Hi {{full_name}}''), (''to_email'', JStr ''ops@example.org'')]) \<and>
   dict_get_default
     [(''subject'', JStr ''Hi {{full_name}}''), (''to_email'', JStr ''ops@example.org'')]
     ''subject'' (JStr []) = JStr ''Hi {{full_name}}'' \<and>
   dict_get_default
     [(''subject'', JStr ''Hi {{full_name}}''), (''to_email'', JStr ''ops@example.org'')]
     ''body'' (JStr []) = JStr [] \<and>
   send_email (\<lambda>v. [])
     (JObj [(''subject'', JStr ''Hi {{full_name}}''), (''to_email'', JStr ''ops@example.org'')])
     [(''id'', JStr ''r1''), (''data'', JObj [(''full_name'', JStr ''Ann'')])] JNull =
     Inr [(''email_sent'', JBool True),
          (''recipient'', JStr ''ops@example.org''),
          (''subject'', JStr ''Hi Ann''),
          (''body_length'', JInt 0)] \<and>
   \<not> truthy (resolved_recipient [(''full_name'', JStr ''Ann'')] [(''subject'', JStr ''Hi'')]) \<and>
   send_email (\<lambda>v. []) (JObj [(''subject'', JStr ''Hi'')])
     [(''id'', JStr ''r1''), (''data'', JObj [(''full_name'', JStr ''Ann'')])] JNull =
     Inl (ValueError ''No recipient email found'')"
  using
    send_email_recipient
      [of "[(''id'', JStr ''r1''), (''data'', JObj [(''full_name'', JStr ''Ann'')])]"
          "[(''full_name'', JStr ''Ann'')]"
          "[(''subject'', JStr ''Hi {{full_name}}''), (''to_email'', JStr ''ops@example.org'')]"
          "\<lambda>v. []" JNull "''Hi {{full_name}}''" "[]"]
    send_email_recipient
      [of "[(''id'', JStr ''r1''), (''data'', JObj [(''full_name'', JStr ''Ann'')])]"
          "[(''full_name'', JStr ''Ann'')]"
          "[(''subject'', JStr ''Hi'')]"
          "\<lambda>v. []" JNull "''Hi''" "[]"]
  by (auto simp add: resolved_recipient_def dict_get_default_def dict_get_def
      replace_template_variables_def all_data_of_def bind_r_def replace_var_def
      strip_def is_space_def)

text \<open>
  Claim C7, as stated, fails: a configuration that contains \<^verbatim>\<open>field_name\<close>, bound to
  the empty string, makes the action fail, and nothing is persisted.
\<close>

theorem update_field_rejects_empty_field_name:
  "map_of [(''field_name'', JStr []), (''new_value'', JStr ''won'')] ''field_name'' = Some (JStr []) \<and>
   update_field (\<lambda>v. []) (JObj [(''field_name'', JStr []), (''new_value'', JStr ''won'')])
     [(''id'', JStr ''r1''), (''data'', JObj [(''status'', JStr ''new'')])] ''ws'' ''en''
     (sample_world [[(''id'', JStr ''r1''), (''data'', JObj [(''status'', JStr ''new'')])]] []) =
   (Inl (ValueError ''Field name is required''),
    sample_world [[(''id'', JStr ''r1''), (''data'', JObj [(''status'', JStr ''new'')])]] [])"
  by (simp add: update_field_def bind_w_def dict_get_def)

lemma rendered_value_run:
  assumes "dict_get_default record ''data'' (JObj []) = JObj data"
  shows "(case v of
            JStr t \<Rightarrow> map_sum id JStr (replace_template_variables rp v record)
          | _ \<Rightarrow> Inr v) = Inr (rendered_value rp record v)"
  by (cases v) (simp_all add: rendered_value_def replace_template_variables_str [OF assms])

text \<open>
  Claim C7, amended. For every record whose payload is a dictionary and every
  update-field configuration: if \<^verbatim>\<open>field_name\<close> is missing or falsy the action fails
  and the world is left as it was, so nothing is persisted. If \<^verbatim>\<open>field_name\<close> is a
  non-empty string, the record has an id and the database accepts the write, the action
  succeeds; the \<^verbatim>\<open>data\<close> column of the rows with that id becomes the record's existing
  payload merged with \<^verbatim>\<open>{field_name: new_value}\<close>, where a \<^verbatim>\<open>new_value\<close> that is a
  string has been rendered through template substitution; every key of the payload
  other than \<^verbatim>\<open>field_name\<close> keeps its prior value, and no other row or table changes.
\<close>

theorem update_field_merges:
  assumes "dict_get_default record ''data'' (JObj []) = JObj data"
  shows "(\<not> truthy (dict_get cfg ''field_name'') \<longrightarrow>
            update_field rp (JObj cfg) record workspace_id entity_id w =
              (Inl (ValueError ''Field name is required''), w)) \<and>
         (dict_get cfg ''field_name'' = JStr f \<and> f \<noteq> [] \<and> map_of record ''id'' = Some rid \<and>
          db_fault w (ticks w) = None \<longrightarrow>
            (let new_value = rendered_value rp record (dict_get cfg ''new_value'');
                 merged = AList.update f new_value data;
                 w' = snd (update_field rp (JObj cfg) record workspace_id entity_id w)
             in fst (update_field rp (JObj cfg) record workspace_id entity_id w) =
                  Inr [(''field_updated'', JBool True),
                       (''field_name'', JStr f),
                       (''old_value'', dict_get data f),
                       (''new_value'', new_value)] \<and>
                records_table w' =
                  map (\<lambda>row. if map_of row ''id'' = Some rid
                              then AList.update ''data'' (JObj merged) row else row)
                    (records_table w) \<and>
                automation_rules_table w' = automation_rules_table w \<and>
                automation_logs_table w' = automation_logs_table w \<and>
                dict_get merged f = new_value \<and>
                (\<forall>k. k \<noteq> f \<longrightarrow> map_of merged k = map_of data k)))"
proof -
  note rv = rendered_value_run [OF assms, of _ rp]
  show ?thesis
    using assms
    by (auto simp add: update_field_def bind_w_def rv py_index_def db_update_record_data_def
        tick_def Let_def dict_get_update update_conv')
qed

theorem update_field_merges_witness:
  "dict_get_default
     [(''id'', JStr ''r1''), (''data'', JObj [(''status'', JStr ''new''), (''owner'', JStr ''Ann'')])]
     ''data'' (JObj []) = JObj [(''status'', JStr ''new''), (''owner'', JStr ''Ann'')] \<and>
   dict_get [(''field_name'', JStr ''status''), (''new_value'', JStr ''won by {{owner}}'')]
     ''field_name'' = JStr ''status'' \<and>
   ''status'' \<noteq> [] \<and>
   map_of
     [(''id'', JStr ''r1''), (''data'', JObj [(''status'', JStr ''new''), (''owner'', JStr ''Ann'')])]
     ''id'' = Some (JStr ''r1'') \<and>
   db_fault (sample_world
     [[(''id'', JStr ''r0''), (''data'', JObj [])],
      [(''id'', JStr ''r1''), (''data'', JObj [(''status'', JStr ''new''), (''owner'', JStr ''Ann'')])]]
     []) (ticks (sample_world
     [[(''id'', JStr ''r0''), (''data'', JObj [])],
      [(''id'', JStr ''r1''), (''data'', JObj [(''status'', JStr ''new''), (''owner'', JStr ''Ann'')])]]
     [])) = None \<and>
   fst (update_field (\<lambda>v. [])
     (JObj [(''field_name'', JStr ''status''), (''new_value'', JStr ''won by {{owner}}'')])
     [(''id'', JStr ''r1''), (''data'', JObj [(''status'', JStr ''new''), (''owner'', JStr ''Ann'')])]
     ''ws'' ''en''
     (sample_world
       [[(''id'', JStr ''r0''), (''data'', JObj [])],
        [(''id'', JStr ''r1''), (''data'', JObj [(''status'', JStr ''new''), (''owner'', JStr ''Ann'')])]]
       [])) =
     Inr [(''field_updated'', JBool True),
          (''field_name'', JStr ''status''),
          (''old_value'', JStr ''new''),
          (''new_value'', JStr ''won by Ann'')] \<and>
   records_table (snd (update_field (\<lambda>v. [])
     (JObj [(''field_name'', JStr ''status''), (''new_value'', JStr ''won by {{owner}}'')])
     [(''id'', JStr ''r1''), (''data'', JObj [(''status'', JStr ''new''), (''owner'', JStr ''Ann'')])]
     ''ws'' ''en''
     (sample_world
       [[(''id'', JStr ''r0''), (''data'', JObj [])],
        [(''id'', JStr ''r1''), (''data'', JObj [(''status'', JStr ''new''), (''owner'', JStr ''Ann'')])]]
       []))) =
     [[(''id'', JStr ''r0''), (''data'', JObj [])],
      [(''id'', JStr ''r1''),
       (''data'', JObj [(''status'', JStr ''won by Ann''), (''owner'', JStr ''Ann'')])]]"
  using update_field_merges
    [of "[(''id'', JStr ''r1''), (''data'', JObj [(''status'', JStr ''new''), (''owner'', JStr ''Ann'')])]"
        "[(''status'', JStr ''new''), (''owner'', JStr ''Ann'')]"
        "[(''field_name'', JStr ''status''), (''new_value'', JStr ''won by {{owner}}'')]"
        "\<lambda>v. []" "''ws''" "''en''"
        "sample_world
          [[(''id'', JStr ''r0''), (''data'', JObj [])],
           [(''id'', JStr ''r1''), (''data'', JObj [(''status'', JStr ''new''), (''owner'', JStr ''Ann'')])]]
          []"
        "''status''" "JStr ''r1''"]
  by (simp add: sample_world_def dict_get_default_def dict_get_def rendered_value_def
      replace_template_variables_def all_data_of_def bind_r_def replace_var_def
      strip_def is_space_def Let_def)

section \<open>The rule executor: theorems\<close>

lemma log_execution_table:
  "automation_logs_table (log_execution automation_id record_id status result w) =
     logs_after w (log_row automation_id record_id status result (utcnow w (ticks w)))"
  by (simp add: log_execution_def logs_after_def log_row_def tick_def Let_def
      split: option.splits)

lemma log_execution_frame:
  "records_table (log_execution automation_id record_id status result w) = records_table w \<and>
   automation_rules_table (log_execution automation_id record_id status result w) =
     automation_rules_table w \<and>
   http_requests (log_execution automation_id record_id status result w) = http_requests w"
  by (simp add: log_execution_def tick_def Let_def split: option.splits)

lemma dispatch_action_unknown:
  assumes "dict_get automation_rule ''action_type'' \<notin> set (map JStr known_action_types)"
  shows "dispatch_action rp automation_rule record workspace_id entity_id w =
           (Inl (ValueError (''Unknown action type: '' @
                   py_str rp (dict_get automation_rule ''action_type''))), w)"
  using assms
  by (simp add: dispatch_action_def known_action_types_def py_eq_JStr_right Let_def)

text \<open>
  Claim C3, as stated, fails: the failure envelope carries \<^verbatim>\<open>success\<close> and
  \<^verbatim>\<open>error\<close> only. For a rule of an unknown action type the executor returns such an
  envelope, with no \<^verbatim>\<open>action_type\<close> in it, and logs the error.
\<close>

theorem execute_failure_envelope_has_no_action_type:
  "execute (\<lambda>v. [])
     [(''id'', JStr ''a1''), (''action_type'', JStr ''page_oncall''), (''action_config'', JObj [])]
     [(''id'', JStr ''r1''), (''data'', JObj [])] ''ws'' ''en'' (sample_world [] []) =
   ([(''success'', JBool False), (''error'', JStr ''Unknown action type: page_oncall'')],
    (sample_world [] [])
      \<lparr>automation_logs_table :=
         [log_row (JStr ''a1'') (JStr ''r1'') ''error''
            [(''error'', JStr ''Unknown action type: page_oncall'')] ''2024-01-01T00:00:00''],
       ticks := 2\<rparr>) \<and>
   map_of
     [(''success'', JBool False), (''error'', JStr ''Unknown action type: page_oncall'')]
     ''action_type'' = None"
  by (simp add: execute_def dispatch_action_def log_execution_def log_row_def sample_world_def
      dict_get_def dict_get_default_def tick_def Let_def)

text \<open>
  Claim C3, amended. For every rule, record and world, \<^verbatim>\<open>execute\<close> returns an
  envelope; no raise of the dispatch leaves it. When the action dispatcher returns a
  result, the envelope is \<^verbatim>\<open>{success: True, action_type, result}\<close> and an entry with
  status \<^verbatim>\<open>success\<close> and that result is added to the execution log. When the action
  dispatcher raises an error, the envelope is \<^verbatim>\<open>{success: False, error}\<close>, without the
  action type, where \<^verbatim>\<open>error\<close> is the string of the error, and an entry with status
  \<^verbatim>\<open>error\<close> carrying that string is added to the log. An action type that is none of
  the four known ones is such an error, \<^verbatim>\<open>Unknown action type\<close>. When the write of
  the log entry fails, the log stays as it was and the envelope is the same.
\<close>

theorem execute_envelope:
  "(case dispatch_action rp automation_rule record workspace_id entity_id w of
      (Inr result, w1) \<Rightarrow>
        fst (execute rp automation_rule record workspace_id entity_id w) =
          [(''success'', JBool True),
           (''action_type'', dict_get automation_rule ''action_type''),
           (''result'', JObj result)] \<and>
        automation_logs_table (snd (execute rp automation_rule record workspace_id entity_id w)) =
          logs_after w1
            (log_row (dict_get automation_rule ''id'') (dict_get record ''id'') ''success''
               result (utcnow w1 (ticks w1)))
    | (Inl e, w1) \<Rightarrow>
        fst (execute rp automation_rule record workspace_id entity_id w) =
          [(''success'', JBool False), (''error'', JStr (str_error e))] \<and>
        automation_logs_table (snd (execute rp automation_rule record workspace_id entity_id w)) =
          logs_after w1
            (log_row (dict_get automation_rule ''id'') (dict_get record ''id'') ''error''
               [(''error'', JStr (str_error e))] (utcnow w1 (ticks w1)))) \<and>
   (dict_get automation_rule ''action_type'' \<notin> set (map JStr known_action_types) \<longrightarrow>
      fst (execute rp automation_rule record workspace_id entity_id w) =
        [(''success'', JBool False),
         (''error'', JStr (''Unknown action type: '' @
                            py_str rp (dict_get automation_rule ''action_type'')))] \<and>
      automation_logs_table (snd (execute rp automation_rule record workspace_id entity_id w)) =
        logs_after w
          (log_row (dict_get automation_rule ''id'') (dict_get record ''id'') ''error''
             [(''error'', JStr (''Unknown action type: '' @
                                 py_str rp (dict_get automation_rule ''action_type'')))]
             (utcnow w (ticks w))))"
proof -
  have known: "case dispatch_action rp automation_rule record workspace_id entity_id w of
      (Inr result, w1) \<Rightarrow>
        fst (execute rp automation_rule record workspace_id entity_id w) =
          [(''success'', JBool True),
           (''action_type'', dict_get automation_rule ''action_type''),
           (''result'', JObj result)] \<and>
        automation_logs_table (snd (execute rp automation_rule record workspace_id entity_id w)) =
          logs_after w1
            (log_row (dict_get automation_rule ''id'') (dict_get record ''id'') ''success''
               result (utcnow w1 (ticks w1)))
    | (Inl e, w1) \<Rightarrow>
        fst (execute rp automation_rule record workspace_id entity_id w) =
          [(''success'', JBool False), (''error'', JStr (str_error e))] \<and>
        automation_logs_table (snd (execute rp automation_rule record workspace_id entity_id w)) =
          logs_after w1
            (log_row (dict_get automation_rule ''id'') (dict_get record ''id'') ''error''
               [(''error'', JStr (str_error e))] (utcnow w1 (ticks w1)))"
    by (simp add: execute_def log_execution_table Let_def split: prod.splits sum.splits)
  have unknown: "dict_get automation_rule ''action_type'' \<notin> set (map JStr known_action_types) \<Longrightarrow>
      fst (execute rp automation_rule record workspace_id entity_id w) =
        [(''success'', JBool False),
         (''error'', JStr (''Unknown action type: '' @
                            py_str rp (dict_get automation_rule ''action_type'')))] \<and>
      automation_logs_table (snd (execute rp automation_rule record workspace_id entity_id w)) =
        logs_after w
          (log_row (dict_get automation_rule ''id'') (dict_get record ''id'') ''error''
             [(''error'', JStr (''Unknown action type: '' @
                                 py_str rp (dict_get automation_rule ''action_type'')))]
             (utcnow w (ticks w)))"
    by (simp add: execute_def dispatch_action_unknown log_execution_table Let_def)
  from known unknown show ?thesis by blast
qed

theorem execute_envelope_witness:
  "dispatch_action (\<lambda>v. [])
     [(''id'', JStr ''a1''), (''action_type'', JStr ''create_task''),
      (''action_config'', JObj [(''title'', JStr ''Call {{full_name}}'')])]
     [(''id'', JStr ''r1''), (''data'', JObj [(''full_name'', JStr ''Ann'')])] ''ws'' ''en''
     (sample_world [] []) =
     (Inr [(''task_created'', JBool True), (''title'', JStr ''Call Ann''),
           (''description'', JStr [])],
      sample_world [] []) \<and>
   fst (execute (\<lambda>v. [])
     [(''id'', JStr ''a1''), (''action_type'', JStr ''create_task''),
      (''action_config'', JObj [(''title'', JStr ''Call {{full_name}}'')])]
     [(''id'', JStr ''r1''), (''data'', JObj [(''full_name'', JStr ''Ann'')])] ''ws'' ''en''
     (sample_world [] [])) =
     [(''success'', JBool True), (''action_type'', JStr ''create_task''),
      (''result'', JObj [(''task_created'', JBool True), (''title'', JStr ''Call Ann''),
                         (''description'', JStr [])])] \<and>
   automation_logs_table (snd (execute (\<lambda>v. [])
     [(''id'', JStr ''a1''), (''action_type'', JStr ''create_task''),
      (''action_config'', JObj [(''title'', JStr ''Call {{full_name}}'')])]
     [(''id'', JStr ''r1''), (''data'', JObj [(''full_name'', JStr ''Ann'')])] ''ws'' ''en''
     (sample_world [] []))) =
     [log_row (JStr ''a1'') (JStr ''r1'') ''success''
        [(''task_created'', JBool True), (''title'', JStr ''Call Ann''),
         (''description'', JStr [])] ''2024-01-01T00:00:00''] \<and>
   dict_get [(''id'', JStr ''a2''), (''action_type'', JNull)] ''action_type'' \<notin>
     set (map JStr known_action_types) \<and>
   fst (execute (\<lambda>v. []) [(''id'', JStr ''a2''), (''action_type'', JNull)]
     [(''id'', JStr ''r1''), (''data'', JObj [(''full_name'', JStr ''Ann'')])] ''ws'' ''en''
     (sample_world [] [])) =
     [(''success'', JBool False), (''error'', JStr ''Unknown action type: None'')]"
proof -
  have d: "dispatch_action (\<lambda>v. [])
     [(''id'', JStr ''a1''), (''action_type'', JStr ''create_task''),
      (''action_config'', JObj [(''title'', JStr ''Call {{full_name}}'')])]
     [(''id'', JStr ''r1''), (''data'', JObj [(''full_name'', JStr ''Ann'')])] ''ws'' ''en''
     (sample_world [] []) =
     (Inr [(''task_created'', JBool True), (''title'', JStr ''Call Ann''),
           (''description'', JStr [])],
      sample_world [] [])"
    by (simp add: dispatch_action_def create_task_def dict_get_def dict_get_default_def
        replace_template_variables_def all_data_of_def bind_r_def replace_var_def
        strip_def is_space_def Let_def)
  show ?thesis
    using
      execute_envelope
        [of "\<lambda>v. []"
            "[(''id'', JStr ''a1''), (''action_type'', JStr ''create_task''),
              (''action_config'', JObj [(''title'', JStr ''Call {{full_name}}'')])]"
            "[(''id'', JStr ''r1''), (''data'', JObj [(''full_name'', JStr ''Ann'')])]"
            "''ws''" "''en''" "sample_world [] []"]
      execute_envelope
        [of "\<lambda>v. []" "[(''id'', JStr ''a2''), (''action_type'', JNull)]"
            "[(''id'', JStr ''r1''), (''data'', JObj [(''full_name'', JStr ''Ann'')])]"
            "''ws''" "''en''" "sample_world [] []"]
    unfolding d
    by (simp add: logs_after_def sample_world_def dict_get_def known_action_types_def)
qed

section \<open>The trigger dispatcher: theorems\<close>

lemma dict_get_key_total:
  "(case key of JArr xs \<Rightarrow> False | JObj kvs \<Rightarrow> False | _ \<Rightarrow> True) \<Longrightarrow>
   \<exists>v. dict_get_key d key = Inr v"
  by (cases key) simp_all

lemma check_trigger_conditions_total:
  assumes "trigger_config_ok automation"
    and "dict_get_default record ''data'' (JObj []) = JObj data"
  shows "\<exists>b. check_trigger_conditions (dict_get_default automation ''trigger_config'' (JObj []))
                record old_data trigger_type = Inr b"
proof -
  from assms(1) obtain tc where
    tc: "dict_get_default automation ''trigger_config'' (JObj []) = JObj tc" and
    key: "case dict_get tc ''field_name'' of JArr xs \<Rightarrow> False | JObj kvs \<Rightarrow> False | _ \<Rightarrow> True"
    by (cases "dict_get_default automation ''trigger_config'' (JObj [])")
       (simp_all add: trigger_config_ok_def)
  have status: "\<exists>b. check_trigger_conditions (JObj tc) record old_data ''status_changed'' = Inr b"
    using assms(2) by (auto simp add: check_trigger_conditions_def bind_r_def Let_def)
  have field: "\<exists>b. check_trigger_conditions (JObj tc) record old_data ''field_updated'' = Inr b"
  proof (cases old_data)
    case None
    then show ?thesis
      by (auto simp add: check_trigger_conditions_def bind_r_def)
  next
    case (Some od)
    obtain ov where ov: "dict_get_key od (dict_get tc ''field_name'') = Inr ov"
      using dict_get_key_total [OF key] by blast
    obtain nv where nv: "dict_get_key data (dict_get tc ''field_name'') = Inr nv"
      using dict_get_key_total [OF key] by blast
    show ?thesis
      using assms(2) Some ov nv
      by (auto simp add: check_trigger_conditions_def bind_r_def)
  qed
  have other: "trigger_type \<noteq> ''status_changed'' \<Longrightarrow> trigger_type \<noteq> ''field_updated'' \<Longrightarrow>
      check_trigger_conditions (JObj tc) record old_data trigger_type = Inr True"
    by (simp add: check_trigger_conditions_def)
  show ?thesis
    unfolding tc using status field other by blast
qed

lemma run_automations_execute_all:
  assumes "\<forall>a \<in> set automations.
             \<exists>b. check_trigger_conditions (dict_get_default a ''trigger_config'' (JObj []))
                    record old_data trigger_type = Inr b"
  shows "run_automations rp automations workspace_id entity_id trigger_type record old_data
           results w =
         (Inr (results @
               fst (execute_all rp (filter (fires record old_data trigger_type) automations)
                      record workspace_id entity_id w)),
          snd (execute_all rp (filter (fires record old_data trigger_type) automations)
                 record workspace_id entity_id w))"
  using assms
proof (induction automations arbitrary: results w)
  case Nil
  then show ?case by simp
next
  case (Cons a rest)
  from Cons.prems obtain b where
    b: "check_trigger_conditions (dict_get_default a ''trigger_config'' (JObj []))
          record old_data trigger_type = Inr b"
    by auto
  from Cons.prems have rest:
    "\<forall>a \<in> set rest.
       \<exists>b. check_trigger_conditions (dict_get_default a ''trigger_config'' (JObj []))
              record old_data trigger_type = Inr b"
    by simp
  note IH = Cons.IH [OF rest]
  show ?case
  proof (cases b)
    case True
    then have f: "fires record old_data trigger_type a"
      using b by (simp add: fires_def)
    show ?thesis
      using b True f
      by (simp add: IH split: prod.splits)
  next
    case False
    then have f: "\<not> fires record old_data trigger_type a"
      using b by (simp add: fires_def)
    show ?thesis
      using b False f
      by (simp add: IH)
  qed
qed

lemma length_execute_all:
  "length (fst (execute_all rp automations record workspace_id entity_id w)) = length automations"
proof (induction automations arbitrary: w)
  case Nil
  then show ?case by simp
next
  case (Cons a rest)
  obtain r w1 where e: "execute rp a record workspace_id entity_id w = (r, w1)"
    by (cases "execute rp a record workspace_id entity_id w")
  obtain rs w2 where es: "execute_all rp rest record workspace_id entity_id w1 = (rs, w2)"
    by (cases "execute_all rp rest record workspace_id entity_id w1")
  have "length rs = length rest"
    using Cons.IH [of w1] es by simp
  then show ?case
    using e es by simp
qed

text \<open>
  What the dispatcher does when the condition check does not raise. A failure to load
  the rule list is a hard error: when the query raises, \<^verbatim>\<open>trigger_automations\<close>
  raises. When the query succeeds and no active rule matches the workspace, the entity
  and the trigger kind, it returns the empty list, and no table and no HTTP request log
  has changed: no action was executed. When the query succeeds, on a record whose
  payload is a dictionary and with loaded rules whose trigger configuration is well
  formed, it returns a list and does not raise, whatever the actions of the rules do:
  the list holds one result, success or failure envelope, for each loaded rule whose
  condition holds, in the order in which the rules were loaded, each rule executed from
  the world the one before left.
\<close>

lemma trigger_automations_contract:
  "(db_fault w (ticks w) = Some m \<longrightarrow>
      trigger_automations rp workspace_id entity_id trigger_type record old_data w =
        (Inl (ExternalError m), tick w)) \<and>
   (db_fault w (ticks w) = None \<and> loaded_rules workspace_id entity_id trigger_type w = [] \<longrightarrow>
      trigger_automations rp workspace_id entity_id trigger_type record old_data w =
        (Inr [], tick w) \<and>
      records_table (tick w) = records_table w \<and>
      automation_logs_table (tick w) = automation_logs_table w \<and>
      http_requests (tick w) = http_requests w) \<and>
   (db_fault w (ticks w) = None \<and>
    dict_get_default record ''data'' (JObj []) = JObj data \<and>
    (\<forall>a \<in> set (loaded_rules workspace_id entity_id trigger_type w). trigger_config_ok a) \<longrightarrow>
      trigger_automations rp workspace_id entity_id trigger_type record old_data w =
        (Inr (fst (execute_all rp
                (filter (fires record old_data trigger_type)
                   (loaded_rules workspace_id entity_id trigger_type w))
                record workspace_id entity_id (tick w))),
         snd (execute_all rp
                (filter (fires record old_data trigger_type)
                   (loaded_rules workspace_id entity_id trigger_type w))
                record workspace_id entity_id (tick w))) \<and>
      length (fst (execute_all rp
          (filter (fires record old_data trigger_type)
             (loaded_rules workspace_id entity_id trigger_type w))
          record workspace_id entity_id (tick w))) =
        length (filter (fires record old_data trigger_type)
                  (loaded_rules workspace_id entity_id trigger_type w)))"
proof -
  have fault: "db_fault w (ticks w) = Some m \<Longrightarrow>
      trigger_automations rp workspace_id entity_id trigger_type record old_data w =
        (Inl (ExternalError m), tick w)"
    by (simp add: trigger_automations_def)
  have empty: "db_fault w (ticks w) = None \<Longrightarrow>
      loaded_rules workspace_id entity_id trigger_type w = [] \<Longrightarrow>
      trigger_automations rp workspace_id entity_id trigger_type record old_data w =
        (Inr [], tick w)"
    by (simp add: trigger_automations_def loaded_rules_def)
  have frame: "records_table (tick w) = records_table w \<and>
      automation_logs_table (tick w) = automation_logs_table w \<and>
      http_requests (tick w) = http_requests w"
    by (simp add: tick_def)
  have run: "trigger_automations rp workspace_id entity_id trigger_type record old_data w =
        (Inr (fst (execute_all rp
                (filter (fires record old_data trigger_type)
                   (loaded_rules workspace_id entity_id trigger_type w))
                record workspace_id entity_id (tick w))),
         snd (execute_all rp
                (filter (fires record old_data trigger_type)
                   (loaded_rules workspace_id entity_id trigger_type w))
                record workspace_id entity_id (tick w)))"
    if nofault: "db_fault w (ticks w) = None"
      and data: "dict_get_default record ''data'' (JObj []) = JObj data"
      and ok: "\<forall>a \<in> set (loaded_rules workspace_id entity_id trigger_type w).
                 trigger_config_ok a"
  proof (cases "loaded_rules workspace_id entity_id trigger_type w = []")
    case True
    then show ?thesis
      using empty [OF nofault True] by simp
  next
    case False
    have total: "\<forall>a \<in> set (loaded_rules workspace_id entity_id trigger_type w).
        \<exists>b. check_trigger_conditions (dict_get_default a ''trigger_config'' (JObj []))
               record old_data trigger_type = Inr b"
      using ok check_trigger_conditions_total [OF _ data] by blast
    have "trigger_automations rp workspace_id entity_id trigger_type record old_data w =
        run_automations rp (loaded_rules workspace_id entity_id trigger_type w)
          workspace_id entity_id trigger_type record old_data [] (tick w)"
      using nofault False by (simp add: trigger_automations_def loaded_rules_def)
    then show ?thesis
      by (simp add: run_automations_execute_all [OF total])
  qed
  show ?thesis
    using fault empty frame run length_execute_all by blast
qed

lemma trigger_automations_contract_witness:
  "db_fault (sample_world [] sample_rules) (ticks (sample_world [] sample_rules)) = None \<and>
   dict_get_default sample_record ''data'' (JObj []) = JObj [(''full_name'', JStr ''Ann'')] \<and>
   list_all trigger_config_ok
     (loaded_rules ''ws'' ''en'' ''record_created'' (sample_world [] sample_rules)) \<and>
   map (\<lambda>a. dict_get a ''id'')
     (filter (fires sample_record None ''record_created'')
        (loaded_rules ''ws'' ''en'' ''record_created'' (sample_world [] sample_rules))) =
     [JStr ''a1'', JStr ''a3''] \<and>
   fst (trigger_automations (\<lambda>v. []) ''ws'' ''en'' ''record_created'' sample_record None
          (sample_world [] sample_rules)) =
     Inr [[(''success'', JBool False), (''error'', JStr ''Webhook URL is required'')],
          [(''success'', JBool True), (''action_type'', JStr ''create_task''),
           (''result'', JObj [(''task_created'', JBool True), (''title'', JStr ''Call Ann''),
                              (''description'', JStr [])])]] \<and>
   loaded_rules ''ws'' ''en'' ''record_deleted'' (sample_world [] sample_rules) = [] \<and>
   trigger_automations (\<lambda>v. []) ''ws'' ''en'' ''record_deleted'' sample_record None
     (sample_world [] sample_rules) = (Inr [], tick (sample_world [] sample_rules))"
proof -
  have loaded: "loaded_rules ''ws'' ''en'' ''record_created'' (sample_world [] sample_rules) =
      [sample_rules ! 0, sample_rules ! 2]"
    by (simp add: loaded_rules_def sample_world_def sample_rules_def rule_selected_def)
  have none: "loaded_rules ''ws'' ''en'' ''record_deleted'' (sample_world [] sample_rules) = []"
    by (simp add: loaded_rules_def sample_world_def sample_rules_def rule_selected_def)
  have ok: "trigger_config_ok (sample_rules ! 0) \<and> trigger_config_ok (sample_rules ! 2)"
    by (simp add: sample_rules_def trigger_config_ok_def dict_get_default_def dict_get_def)
  have f: "fires sample_record None ''record_created'' (sample_rules ! 0) \<and>
           fires sample_record None ''record_created'' (sample_rules ! 2)"
    by (simp add: fires_def check_trigger_conditions_def)
  have ids: "dict_get (sample_rules ! 0) ''id'' = JStr ''a1'' \<and>
             dict_get (sample_rules ! 2) ''id'' = JStr ''a3''"
    by (simp add: sample_rules_def dict_get_def)
  have nofault: "db_fault (sample_world [] sample_rules) (ticks (sample_world [] sample_rules)) = None"
    by (simp add: sample_world_def)
  have data: "dict_get_default sample_record ''data'' (JObj []) = JObj [(''full_name'', JStr ''Ann'')]"
    by (simp add: sample_record_def dict_get_default_def)
  have e1: "execute (\<lambda>v. []) (sample_rules ! 0) sample_record ''ws'' ''en''
              (tick (sample_world [] sample_rules)) =
            ([(''success'', JBool False), (''error'', JStr ''Webhook URL is required'')],
             log_execution (JStr ''a1'') (JStr ''r1'') ''error''
               [(''error'', JStr ''Webhook URL is required'')]
               (tick (sample_world [] sample_rules)))"
    by (simp add: execute_def dispatch_action_def call_webhook_def bind_w_def bind_r_def
        sample_rules_def sample_record_def dict_get_def dict_get_default_def Let_def)
  have e3: "\<And>w. fst (execute (\<lambda>v. []) (sample_rules ! 2) sample_record ''ws'' ''en'' w) =
            [(''success'', JBool True), (''action_type'', JStr ''create_task''),
             (''result'', JObj [(''task_created'', JBool True), (''title'', JStr ''Call Ann''),
                                (''description'', JStr [])])]"
    by (simp add: execute_def dispatch_action_def create_task_def bind_r_def
        sample_rules_def sample_record_def dict_get_def dict_get_default_def
        replace_template_variables_def all_data_of_def replace_var_def strip_def
        is_space_def Let_def)
  have run: "fst (execute_all (\<lambda>v. []) [sample_rules ! 0, sample_rules ! 2] sample_record
                    ''ws'' ''en'' (tick (sample_world [] sample_rules))) =
             [[(''success'', JBool False), (''error'', JStr ''Webhook URL is required'')],
              [(''success'', JBool True), (''action_type'', JStr ''create_task''),
               (''result'', JObj [(''task_created'', JBool True), (''title'', JStr ''Call Ann''),
                                  (''description'', JStr [])])]]"
    using e3 by (simp add: e1 split: prod.splits) (metis fst_conv)
  show ?thesis
    using
      trigger_automations_contract
        [of "sample_world [] sample_rules" "[]" "\<lambda>v. []" "''ws''" "''en''"
            "''record_created''" sample_record None "[(''full_name'', JStr ''Ann'')]"]
      trigger_automations_contract
        [of "sample_world [] sample_rules" "[]" "\<lambda>v. []" "''ws''" "''en''"
            "''record_deleted''" sample_record None "[(''full_name'', JStr ''Ann'')]"]
    by (simp add: loaded none ok f ids nofault data run del: execute_all.simps)
qed

text \<open>
  Claim C2 asks that the dispatcher never raises because of one rule, and that only a
  failure to load the rule list is a hard error. The executor keeps that promise for the
  actions, but the condition check of the loop stands outside every \<^verbatim>\<open>try\<close>. With
  the rule list loaded without fault, a first rule runs and is logged; the second rule
  has a trigger configuration whose \<^verbatim>\<open>field_name\<close> is a list, its condition check
  raises \<^verbatim>\<open>TypeError\<close>, and the dispatcher raises it: no list is returned and the
  third rule is never looked at. A rule whose trigger configuration is \<^verbatim>\<open>null\<close> makes
  the check raise \<^verbatim>\<open>AttributeError\<close> in the same place.
\<close>

theorem trigger_automations_condition_check_raises:
  "db_fault (sample_world [] sample_field_rules)
     (ticks (sample_world [] sample_field_rules)) = None \<and>
   loaded_rules ''ws'' ''en'' ''field_updated'' (sample_world [] sample_field_rules) =
     sample_field_rules \<and>
   fst (trigger_automations (\<lambda>v. []) ''ws'' ''en'' ''field_updated'' sample_record
          (Some sample_old_data) (sample_world [] sample_field_rules)) =
     Inl (TypeError (''unhashable type: '' @ CHR 0x27 # ''list'' @ [CHR 0x27])) \<and>
   automation_logs_table
     (snd (trigger_automations (\<lambda>v. []) ''ws'' ''en'' ''field_updated'' sample_record
             (Some sample_old_data) (sample_world [] sample_field_rules))) =
     [log_row (JStr ''b1'') (JStr ''r1'') ''success''
        [(''task_created'', JBool True), (''title'', JStr ''Call Ann''),
         (''description'', JStr [])] ''2024-01-01T00:00:00''] \<and>
   check_trigger_conditions JNull sample_record (Some sample_old_data) ''status_changed'' =
     Inl (AttributeError ''NoneType'' ''get'')"
proof -
  let ?w = "sample_world [] sample_field_rules"
  have nofault: "db_fault ?w (ticks ?w) = None"
    by (simp add: sample_world_def)
  have loaded: "loaded_rules ''ws'' ''en'' ''field_updated'' ?w = sample_field_rules"
    by (simp add: loaded_rules_def sample_world_def sample_field_rules_def rule_selected_def)
  have rules: "sample_field_rules =
      [sample_field_rules ! 0, sample_field_rules ! 1, sample_field_rules ! 2]"
    by (simp add: sample_field_rules_def)
  have c1: "check_trigger_conditions
      (dict_get_default (sample_field_rules ! 0) ''trigger_config'' (JObj []))
      sample_record (Some sample_old_data) ''field_updated'' = Inr True"
    by (simp add: sample_field_rules_def dict_get_default_def check_trigger_conditions_def
        bind_r_def dict_get_def)
  have c2: "check_trigger_conditions
      (dict_get_default (sample_field_rules ! Suc 0) ''trigger_config'' (JObj []))
      sample_record (Some sample_old_data) ''field_updated'' =
      Inl (TypeError (''unhashable type: '' @ CHR 0x27 # ''list'' @ [CHR 0x27]))"
    by (simp add: sample_field_rules_def dict_get_default_def check_trigger_conditions_def
        bind_r_def dict_get_def sample_old_data_def)
  have d1: "dispatch_action (\<lambda>v. []) (sample_field_rules ! 0) sample_record ''ws'' ''en''
        (tick ?w) =
      (Inr [(''task_created'', JBool True), (''title'', JStr ''Call Ann''),
            (''description'', JStr [])], tick ?w)"
    by (simp add: dispatch_action_def create_task_def bind_r_def
        sample_field_rules_def sample_record_def dict_get_def dict_get_default_def
        replace_template_variables_def all_data_of_def replace_var_def strip_def
        is_space_def Let_def)
  have e1: "execute (\<lambda>v. []) (sample_field_rules ! 0) sample_record ''ws'' ''en'' (tick ?w) =
      ([(''success'', JBool True), (''action_type'', JStr ''create_task''),
        (''result'', JObj [(''task_created'', JBool True), (''title'', JStr ''Call Ann''),
                           (''description'', JStr [])])],
       log_execution (JStr ''b1'') (JStr ''r1'') ''success''
         [(''task_created'', JBool True), (''title'', JStr ''Call Ann''),
          (''description'', JStr [])] (tick ?w))"
    by (simp add: execute_def d1)
       (simp add: sample_field_rules_def sample_record_def dict_get_def)
  have run: "trigger_automations (\<lambda>v. []) ''ws'' ''en'' ''field_updated'' sample_record
        (Some sample_old_data) ?w =
      (Inl (TypeError (''unhashable type: '' @ CHR 0x27 # ''list'' @ [CHR 0x27])),
       log_execution (JStr ''b1'') (JStr ''r1'') ''success''
         [(''task_created'', JBool True), (''title'', JStr ''Call Ann''),
          (''description'', JStr [])] (tick ?w))"
  proof -
    have "trigger_automations (\<lambda>v. []) ''ws'' ''en'' ''field_updated'' sample_record
        (Some sample_old_data) ?w =
      run_automations (\<lambda>v. [])
        [sample_field_rules ! 0, sample_field_rules ! 1, sample_field_rules ! 2]
        ''ws'' ''en'' ''field_updated'' sample_record (Some sample_old_data) [] (tick ?w)"
      using nofault loaded rules
      by (simp add: trigger_automations_def loaded_rules_def Let_def)
    also have "\<dots> =
      (Inl (TypeError (''unhashable type: '' @ CHR 0x27 # ''list'' @ [CHR 0x27])),
       log_execution (JStr ''b1'') (JStr ''r1'') ''success''
         [(''task_created'', JBool True), (''title'', JStr ''Call Ann''),
          (''description'', JStr [])] (tick ?w))"
      by (simp add: c1 c2 e1)
    finally show ?thesis .
  qed
  have logs: "automation_logs_table
      (log_execution (JStr ''b1'') (JStr ''r1'') ''success''
         [(''task_created'', JBool True), (''title'', JStr ''Call Ann''),
          (''description'', JStr [])] (tick ?w)) =
     [log_row (JStr ''b1'') (JStr ''r1'') ''success''
        [(''task_created'', JBool True), (''title'', JStr ''Call Ann''),
         (''description'', JStr [])] ''2024-01-01T00:00:00'']"
    by (simp add: log_execution_table logs_after_def tick_def sample_world_def)
  have null: "check_trigger_conditions JNull sample_record (Some sample_old_data)
      ''status_changed'' = Inl (AttributeError ''NoneType'' ''get'')"
    by (simp add: check_trigger_conditions_def bind_r_def)
  show ?thesis
    using nofault loaded logs null by (simp add: run)
qed

section \<open>The automation rules API: theorems\<close>

lemma map_of_opt_item:
  "map_of (opt_item k v @ rest) k' = (if k' = k \<and> v \<noteq> None then v else map_of rest k')"
  by (cases v) (simp_all add: opt_item_def)

lemma map_of_opt_item_last:
  "map_of (opt_item k v) k' = (if k' = k then v else None)"
  by (cases v) (simp_all add: opt_item_def)

lemma map_of_action_config_dict:
  "map_of (action_config_dict config) ''subject'' = map_option JStr (ac_subject config)"
  "map_of (action_config_dict config) ''body'' = map_option JStr (ac_body config)"
  "map_of (action_config_dict config) ''url'' = map_option JStr (ac_url config)"
  "map_of (action_config_dict config) ''method'' = map_option JStr (ac_method config)"
  "map_of (action_config_dict config) ''field_name'' = map_option JStr (ac_field_name config)"
  "map_of (action_config_dict config) ''title'' = map_option JStr (ac_title config)"
  unfolding action_config_dict_def
  by (simp_all add: map_of_opt_item map_of_opt_item_last del: map_of_append)

lemma truthy_stored_field:
  "\<not> opt_falsy v \<Longrightarrow> map_of d k = map_option JStr v \<Longrightarrow>
   truthy (config_get (JObj d) k)"
  by (cases v) (simp_all add: opt_falsy_def dict_get_def config_get_def)

lemma validated_config_ok:
  assumes "validate_action_config action_type config = None"
  shows "required_fields_ok (JStr action_type) (JObj (action_config_dict config))"
proof -
  consider (email) "action_type = ''send_email''"
    | (webhook) "action_type = ''webhook''"
    | (field) "action_type = ''update_field''"
    | (task) "action_type = ''create_task''"
    | (other) "action_type \<notin> set known_action_types"
    by (auto simp add: known_action_types_def)
  then show ?thesis
  proof cases
    case email
    with assms have "\<not> opt_falsy (ac_subject config)" and "\<not> opt_falsy (ac_body config)"
      by (simp_all add: validate_action_config_def split: if_splits)
    then show ?thesis
      using email
      by (simp add: required_fields_ok_def truthy_stored_field map_of_action_config_dict)
  next
    case webhook
    with assms have u: "\<not> opt_falsy (ac_url config)"
      and m: "ac_method config \<in> set [Some ''POST'', Some ''PUT'', Some ''PATCH'']"
      by (simp_all add: validate_action_config_def split: if_splits)
    from m have "config_get (JObj (action_config_dict config)) ''method'' \<in>
        set [JStr ''POST'', JStr ''PUT'', JStr ''PATCH'']"
      by (auto simp add: config_get_def dict_get_def map_of_action_config_dict)
    with u show ?thesis
      using webhook
      by (simp add: required_fields_ok_def truthy_stored_field map_of_action_config_dict)
  next
    case field
    with assms have "\<not> opt_falsy (ac_field_name config)"
      by (simp_all add: validate_action_config_def split: if_splits)
    then show ?thesis
      using field
      by (simp add: required_fields_ok_def truthy_stored_field map_of_action_config_dict)
  next
    case task
    with assms have "\<not> opt_falsy (ac_title config)"
      by (simp_all add: validate_action_config_def split: if_splits)
    then show ?thesis
      using task
      by (simp add: required_fields_ok_def truthy_stored_field map_of_action_config_dict)
  next
    case other
    then show ?thesis
      by (simp add: required_fields_ok_def known_action_types_def)
  qed
qed

text \<open>
  The creation path keeps the contract: a rule that \<^verbatim>\<open>create_automation\<close> inserts has
  passed \<^verbatim>\<open>_validate_action_config\<close>, and the dictionary stored for it meets the
  required-field contract of its action type.
\<close>

lemma create_automation_validates:
  assumes "create_automation workspace_id request w = (Inr row, w')"
  shows "rule_contract_ok row \<and> automation_rules_table w' = automation_rules_table w @ [row]"
proof (cases "db_fault w (ticks w)")
  case (Some m)
  with assms show ?thesis
    by (simp add: create_automation_def)
next
  case None
  note f1 = None
  show ?thesis
  proof (cases "filter (entity_in_workspace (car_entity_id request) workspace_id)
                  (entities_table w) = []")
    case True
    with assms f1 show ?thesis
      by (simp add: create_automation_def Let_def)
  next
    case False
    note ent = False
    show ?thesis
    proof (cases "validate_action_config (car_action_type request) (car_action_config request)")
      case (Some err)
      with assms f1 ent show ?thesis
        by (simp add: create_automation_def Let_def)
    next
      case None
      note v = None
      show ?thesis
      proof (cases "db_fault (tick w) (ticks (tick w))")
        case (Some m)
        with assms f1 ent v show ?thesis
          by (simp add: create_automation_def Let_def)
      next
        case None
        with assms f1 ent v have
          row: "row = [(''id'', JStr (new_id (tick w) (ticks (tick w)))),
             (''workspace_id'', JStr workspace_id),
             (''entity_id'', JStr (car_entity_id request)),
             (''name'', JStr (car_name request)),
             (''trigger_type'', JStr (car_trigger_type request)),
             (''trigger_config'', JObj (trigger_config_dict (car_trigger_config request))),
             (''action_type'', JStr (car_action_type request)),
             (''action_config'', JObj (action_config_dict (car_action_config request))),
             (''is_active'', JBool (car_is_active request))]"
          and tbl: "w' = tick ((tick w)\<lparr>automation_rules_table :=
                       automation_rules_table (tick w) @ [row]\<rparr>)"
          by (auto simp add: create_automation_def Let_def)
        have "rule_contract_ok row"
          using validated_config_ok [OF v]
          by (simp add: rule_contract_ok_def row dict_get_def dict_get_default_def)
        moreover have "automation_rules_table w' = automation_rules_table w @ [row]"
          by (simp add: tbl tick_def)
        ultimately show ?thesis by simp
      qed
    qed
  qed
qed

text \<open>
  Claim C4 asks that every persisted rule meets the required-field contract of its
  action type, after every creation and every update. The update path breaks it: on a
  stored notification rule that meets the contract, an update whose action
  configuration has neither subject nor body, one that \<^verbatim>\<open>_validate_action_config\<close>
  rejects for this action type, is accepted by \<^verbatim>\<open>update_automation\<close>, and the rule
  stored afterwards no longer meets the contract.
\<close>

theorem update_automation_skips_validation:
  "rule_contract_ok sample_email_rule \<and>
   validate_action_config ''send_email'' default_action_config =
     Some (HTTPException 400 ''Email action requires subject and body'') \<and>
   fst (update_automation ''ws'' ''a1'' sample_update_request
          (sample_world [] [sample_email_rule])) =
     Inr [(''id'', JStr ''a1''), (''workspace_id'', JStr ''ws''), (''entity_id'', JStr ''en''),
          (''name'', JStr ''welcome''), (''trigger_type'', JStr ''record_created''),
          (''trigger_config'', JObj []), (''action_type'', JStr ''send_email''),
          (''action_config'', JObj [(''method'', JStr ''POST'')]),
          (''is_active'', JBool True)] \<and>
   automation_rules_table (snd (update_automation ''ws'' ''a1'' sample_update_request
          (sample_world [] [sample_email_rule]))) =
     [[(''id'', JStr ''a1''), (''workspace_id'', JStr ''ws''), (''entity_id'', JStr ''en''),
       (''name'', JStr ''welcome''), (''trigger_type'', JStr ''record_created''),
       (''trigger_config'', JObj []), (''action_type'', JStr ''send_email''),
       (''action_config'', JObj [(''method'', JStr ''POST'')]),
       (''is_active'', JBool True)]] \<and>
   \<not> rule_contract_ok
       [(''id'', JStr ''a1''), (''workspace_id'', JStr ''ws''), (''entity_id'', JStr ''en''),
        (''name'', JStr ''welcome''), (''trigger_type'', JStr ''record_created''),
        (''trigger_config'', JObj []), (''action_type'', JStr ''send_email''),
        (''action_config'', JObj [(''method'', JStr ''POST'')]),
        (''is_active'', JBool True)]"
proof -
  have before: "rule_contract_ok sample_email_rule"
    by (simp add: rule_contract_ok_def required_fields_ok_def sample_email_rule_def
        dict_get_def dict_get_default_def config_get_def)
  have rejected: "validate_action_config ''send_email'' default_action_config =
      Some (HTTPException 400 ''Email action requires subject and body'')"
    by (simp add: validate_action_config_def default_action_config_def opt_falsy_def)
  have ud: "update_data_of sample_update_request =
      [(''action_config'', JObj [(''method'', JStr ''POST'')])]"
    by (simp add: update_data_of_def sample_update_request_def default_action_config_def
        action_config_dict_def opt_item_def)
  have sel: "automation_selected ''a1'' ''ws'' sample_email_rule"
    by (simp add: automation_selected_def sample_email_rule_def)
  have upd: "apply_update [(''action_config'', JObj [(''method'', JStr ''POST'')])]
        sample_email_rule =
      [(''id'', JStr ''a1''), (''workspace_id'', JStr ''ws''), (''entity_id'', JStr ''en''),
       (''name'', JStr ''welcome''), (''trigger_type'', JStr ''record_created''),
       (''trigger_config'', JObj []), (''action_type'', JStr ''send_email''),
       (''action_config'', JObj [(''method'', JStr ''POST'')]),
       (''is_active'', JBool True)]"
    by (simp add: apply_update_def sample_email_rule_def)
  have run: "update_automation ''ws'' ''a1'' sample_update_request
        (sample_world [] [sample_email_rule]) =
      (Inr (apply_update [(''action_config'', JObj [(''method'', JStr ''POST'')])]
              sample_email_rule),
       tick ((sample_world [] [sample_email_rule])
         \<lparr>automation_rules_table :=
            [apply_update [(''action_config'', JObj [(''method'', JStr ''POST'')])]
               sample_email_rule]\<rparr>))"
    by (simp add: update_automation_def ud sel sample_world_def Let_def)
  have after: "\<not> rule_contract_ok
       [(''id'', JStr ''a1''), (''workspace_id'', JStr ''ws''), (''entity_id'', JStr ''en''),
        (''name'', JStr ''welcome''), (''trigger_type'', JStr ''record_created''),
        (''trigger_config'', JObj []), (''action_type'', JStr ''send_email''),
        (''action_config'', JObj [(''method'', JStr ''POST'')]),
        (''is_active'', JBool True)]"
    by (simp add: rule_contract_ok_def required_fields_ok_def dict_get_def
        dict_get_default_def config_get_def)
  show ?thesis
    by (simp add: before rejected run upd after tick_def)
qed

end
